theory Spec2Isabelle
  imports
    Main
    "HOL-Library.Multiset"
    "HOL-Library.AList"
    "HOL-Library.Sublist"
    "HOL-Library.Char_ord"
    "HOL-Library.List_Lexorder"
begin

section \<open>Data model (package models)\<close>

text \<open>
  Go's \<open>int\<close> and \<open>int64\<close> fields are modelled as unbounded \<open>int\<close>: the program only
  compares, copies and increments them by one, and no counter here can reach \<open>2^63\<close>.
  A pointer field (\<open>*int\<close>, \<open>*int64\<close>, \<open>*time.Time\<close>) is an \<open>option\<close>, \<open>None\<close> being
  \<open>nil\<close>. A slice is a list; a nil slice and an empty slice are both \<open>[]\<close> (the program only
  ranges over slices and takes their length). A string is a list of bytes.
\<close>

text \<open>
  \<open>time.Time\<close>: the civil time the program formats, the offset of its zone in seconds
  east of UTC, and the reading of the monotonic clock, which a value of \<open>time.Now()\<close>
  carries and a parsed time does not (\<open>None\<close>).
\<close>

record GoTime =
  t_year :: int
  t_month :: nat
  t_day :: nat
  t_hour :: nat
  t_minute :: nat
  t_second :: nat
  t_nanosecond :: nat
  t_offset :: int
  t_monotonic :: "int option"

record User =
  u_Login :: string
  u_ID :: int
  u_AvatarURL :: string
  u_HTMLURL :: string
  u_Type :: string

record Branch =
  b_Label :: string
  b_Ref :: string
  b_SHA :: string

record PullRequest =
  pr_Number :: int
  pr_Title :: string
  pr_State :: string
  pr_Body :: string
  pr_CreatedAt :: GoTime
  pr_UpdatedAt :: GoTime
  pr_ClosedAt :: "GoTime option"
  pr_MergedAt :: "GoTime option"
  pr_User :: User
  pr_Base :: Branch
  pr_Head :: Branch
  pr_URL :: string
  pr_HTMLURL :: string
  pr_CommentsURL :: string
  pr_ReviewComments :: int
  pr_Comments :: int
  pr_Commits :: int
  pr_Additions :: int
  pr_Deletions :: int
  pr_ChangedFiles :: int

record Commit =
  ci_SHA :: string
  ci_Author :: User
  ci_Committer :: User
  ci_Message :: string
  ci_URL :: string
  ci_Date :: GoTime

record Comment =
  cm_ID :: int
  cm_Body :: string
  cm_User :: User
  cm_CreatedAt :: GoTime
  cm_UpdatedAt :: GoTime
  cm_URL :: string
  cm_HTMLURL :: string
  cm_Type :: string
  cm_Path :: string
  cm_Position :: "int option"
  cm_Line :: "int option"
  cm_StartLine :: "int option"
  cm_OriginalPosition :: "int option"
  cm_OriginalStartLine :: "int option"
  cm_CommitID :: string
  cm_OriginalCommitID :: string
  cm_DiffHunk :: string
  cm_InReplyToID :: "int option"

record Review =
  rv_ID :: int
  rv_User :: User
  rv_Body :: string
  rv_State :: string
  rv_HTMLURL :: string
  rv_SubmittedAt :: GoTime
  rv_CommitID :: string

record PRData =
  pd_PR :: PullRequest
  pd_Commits :: "Commit list"
  pd_Comments :: "Comment list"
  pd_Reviews :: "Review list"

text \<open>
  \<open>Metadata.AuthorStats\<close> is a Go \<open>map[string]int\<close>, kept as an association list and
  read through \<open>map_of\<close>: the order of the entries carries no meaning. \<open>stat_of\<close> gives
  the zero value for a missing key, as a Go map read does.
\<close>

record Metadata =
  md_LastUpdated :: GoTime
  md_TotalPRs :: int
  md_Repository :: string
  md_Owner :: string
  md_AuthorStats :: "(string \<times> int) list"

definition stat_of :: "(string \<times> int) list \<Rightarrow> string \<Rightarrow> int" where
  "stat_of m a = (case map_of m a of None \<Rightarrow> 0 | Some n \<Rightarrow> n)"

text \<open>\<open>m[k]++\<close> on a Go map.\<close>

definition incr :: "(string \<times> int) list \<Rightarrow> string \<Rightarrow> (string \<times> int) list" where
  "incr m k = AList.update k (stat_of m k + 1) m"

text \<open>Package gemini: the learning record and the processing status.\<close>

record Learning =
  l_PRNumber :: int
  l_PRTitle :: string
  l_Learnings :: "string list"
  l_Topics :: "string list"
  l_ProcessedAt :: string

record ProcessingStatus =
  ps_TotalPRs :: int
  ps_ProcessedPRs :: int
  ps_LastPR :: int
  ps_UpdatedAt :: string

definition zero_status :: ProcessingStatus where
  "zero_status = \<lparr>ps_TotalPRs = 0, ps_ProcessedPRs = 0, ps_LastPR = 0, ps_UpdatedAt = []\<rparr>"

section \<open>The data directory\<close>

text \<open>
  What opening and decoding a JSON file gives: the file is absent (\<open>os.IsNotExist\<close>),
  cannot be opened for another reason, makes the decoder return an error, or decodes to
  a value. \<open>Malformed v\<close> carries what the decoder had stored in a zero-valued target
  when it returned its error (a type error in one element leaves the others decoded; a
  syntax error leaves the zero value).
\<close>

datatype 'a stored = Absent | Unreadable | Malformed 'a | Content 'a

text \<open>The four files of \<open>data/pulls/{number}/\<close>.\<close>

record pr_files =
  pr_json :: "PullRequest stored"
  commits_json :: "Commit list stored"
  comments_json :: "Comment list stored"
  reviews_json :: "Review list stored"

text \<open>An entry of \<open>data/pulls\<close> as \<open>os.ReadDir\<close> lists it: a plain file, or a directory.\<close>

datatype dir_entry = PlainFile string | Dir string pr_files

fun entry_name :: "dir_entry \<Rightarrow> string" where
  "entry_name (PlainFile n) = n"
| "entry_name (Dir n fs) = n"

text \<open>
  The store: \<open>pulls = None\<close> when \<open>data/pulls\<close> cannot be listed; \<open>learnings\<close> holds the
  files \<open>data/learnings/{number}.json\<close>, keyed by the number in their name.
\<close>

record store =
  pulls :: "dir_entry list option"
  metadata_json :: "Metadata stored"
  status_json :: "ProcessingStatus stored"
  learnings :: "int \<rightharpoonup> Learning"

datatype error =
    StatusLoadFailed
  | PullsDirUnreadable
  | OpenFailed
  | DecodeFailed
  | GenerateFailed
  | WriteFailed
  | MetadataLoadFailed
  | FetchFailed
  | MkdirFailed

section \<open>Formatting integers (\<open>fmt.Sprintf("%d", n)\<close>)\<close>

definition digit_char :: "nat \<Rightarrow> char" where
  "digit_char d = ''0123456789'' ! d"

fun nat_digits :: "nat \<Rightarrow> string" where
  "nat_digits n = (if n < 10 then [digit_char n] else nat_digits (n div 10) @ [digit_char (n mod 10)])"

declare nat_digits.simps [simp del]

definition itoa :: "int \<Rightarrow> string" where
  "itoa i = (if i < 0 then CHR ''-'' # nat_digits (nat (- i)) else nat_digits (nat i))"

section \<open>Library routines and the outside world, as parameters\<close>

text \<open>
  The routines of the Go standard library whose algorithms the program relies on but does
  not contain are parameters of the model:
  \<^item> \<open>sscanf_d name\<close>: what \<open>fmt.Sscanf(name, "%d", &num)\<close> stores in \<open>num\<close>, \<open>None\<close> when it
    returns an error;
  \<^item> \<open>unmarshal_result text\<close>: what \<open>json.Unmarshal\<close> decodes \<open>text\<close> to for the target
    \<open>struct {Learnings []string; Topics []string}\<close>, \<open>None\<close> when it returns an error.
\<close>

record lib =
  sscanf_d :: "string \<Rightarrow> int option"
  unmarshal_result :: "string \<Rightarrow> (string list \<times> string list) option"

text \<open>
  The generation service answers the \<open>k\<close>-th request of a run with an error or with a
  list of candidates. A candidate's \<open>Content\<close> is a pointer: \<open>None\<close> is a candidate
  without content (nil), \<open>Some parts\<close> one whose content has these parts (as \<open>%v\<close>
  prints them). \<open>now\<close> is the clock reading
  \<open>time.Now().Format(time.RFC3339)\<close>; the two \<open>fails\<close> predicates say whether writing the
  learning file, or the status file, fails for a given PR number.
\<close>

datatype gen_response = GenError | Candidates "string list option list"

text \<open>What a call does: it panics, or it returns.\<close>

datatype 'a call = Panics | Gives 'a

record env =
  generate :: "nat \<Rightarrow> PRData \<Rightarrow> gen_response"
  now :: string
  save_learning_fails :: "int \<Rightarrow> bool"
  save_status_fails :: "int \<Rightarrow> bool"

section \<open>Package gemini\<close>

text \<open>\<open>strings.Index(text, "{")\<close> and \<open>strings.LastIndex(text, "}")\<close>; \<open>None\<close> is \<open>-1\<close>.\<close>

fun index_byte :: "char \<Rightarrow> string \<Rightarrow> nat option" where
  "index_byte c [] = None"
| "index_byte c (x # xs) = (if x = c then Some 0 else map_option Suc (index_byte c xs))"

fun last_index_byte :: "char \<Rightarrow> string \<Rightarrow> nat option" where
  "last_index_byte c [] = None"
| "last_index_byte c (x # xs) =
     (case last_index_byte c xs of
        Some i \<Rightarrow> Some (Suc i)
      | None \<Rightarrow> if x = c then Some 0 else None)"

text \<open>The slice expression \<open>text[lo : hi]\<close> for \<open>lo \<le> hi \<le> len(text)\<close>.\<close>

definition slice :: "'a list \<Rightarrow> nat \<Rightarrow> nat \<Rightarrow> 'a list" where
  "slice xs lo hi = take (hi - lo) (drop lo xs)"

definition mk_learning :: "env \<Rightarrow> PRData \<Rightarrow> string list \<Rightarrow> string list \<Rightarrow> Learning" where
  "mk_learning e prData ls ts =
     \<lparr>l_PRNumber = pr_Number (pd_PR prData), l_PRTitle = pr_Title (pd_PR prData),
      l_Learnings = ls, l_Topics = ts, l_ProcessedAt = now e\<rparr>"

text \<open>
  \<open>Client.ProcessPR\<close>, from the response of \<open>GenerateContent\<close> on. \<open>k\<close> is the number of
  requests made before this one. The test \<open>len(resp.Candidates[0].Content.Parts) > 0\<close>
  dereferences the first candidate's content, and panics when that is nil.
\<close>

definition parse_text :: "lib \<Rightarrow> env \<Rightarrow> PRData \<Rightarrow> string \<Rightarrow> Learning" where
  "parse_text L e prData text =
     (case (index_byte CHR ''{'' text, last_index_byte CHR ''}'' text) of
        (Some jsonStart, Some jsonEnd) \<Rightarrow>
          if jsonEnd > jsonStart then
            (case unmarshal_result L (slice text jsonStart (jsonEnd + 1)) of
               None \<Rightarrow> mk_learning e prData [] []
             | Some (ls, ts) \<Rightarrow> mk_learning e prData ls ts)
          else mk_learning e prData [] []
      | _ \<Rightarrow> mk_learning e prData [] [])"

definition parse_response :: "lib \<Rightarrow> env \<Rightarrow> PRData \<Rightarrow> string list option list \<Rightarrow> Learning call" where
  "parse_response L e prData cands =
     (case cands of
        [] \<Rightarrow> Gives (mk_learning e prData [] [])
      | None # rest \<Rightarrow> Panics
      | Some [] # rest \<Rightarrow> Gives (mk_learning e prData [] [])
      | Some (text # parts) # rest \<Rightarrow> Gives (parse_text L e prData text))"

definition ProcessPR :: "lib \<Rightarrow> env \<Rightarrow> nat \<Rightarrow> PRData \<Rightarrow> (error + Learning) call" where
  "ProcessPR L e k prData =
     (case generate e k prData of
        GenError \<Rightarrow> Gives (Inl GenerateFailed)
      | Candidates cands \<Rightarrow>
          (case parse_response L e prData cands of
             Panics \<Rightarrow> Panics
           | Gives learning \<Rightarrow> Gives (Inr learning)))"

definition LoadProcessingStatus :: "store \<Rightarrow> error + ProcessingStatus" where
  "LoadProcessingStatus st =
     (case status_json st of
        Absent \<Rightarrow> Inr zero_status
      | Unreadable \<Rightarrow> Inl OpenFailed
      | Malformed s \<Rightarrow> Inl DecodeFailed
      | Content s \<Rightarrow> Inr s)"

definition SaveProcessingStatus :: "env \<Rightarrow> store \<Rightarrow> ProcessingStatus \<Rightarrow> error + store" where
  "SaveProcessingStatus e st status =
     (if save_status_fails e (ps_LastPR status) then Inl WriteFailed
      else Inr (st\<lparr>status_json := Content status\<rparr>))"

definition SaveLearning :: "env \<Rightarrow> store \<Rightarrow> Learning \<Rightarrow> error + store" where
  "SaveLearning e st learning =
     (if save_learning_fails e (l_PRNumber learning) then Inl WriteFailed
      else Inr (st\<lparr>learnings := (learnings st)(l_PRNumber learning \<mapsto> learning)\<rparr>))"

section \<open>Package processor\<close>

text \<open>
  The effects of a run, in the order they happen: the loop starts on a PR number (and
  tries to load its files), a request goes to the generation service, a learning file is
  written, the status file is written. A write that fails leaves no event. The request
  carries the PR data the prompt is built from.
\<close>

datatype event =
    LoadPR int
  | Generate int PRData
  | WriteLearning int Learning
  | WriteStatus ProcessingStatus

fun request_of :: "event \<Rightarrow> int option" where
  "request_of (Generate n d) = Some n"
| "request_of ev = None"

fun visit_of :: "event \<Rightarrow> int option" where
  "visit_of (LoadPR n) = Some n"
| "visit_of ev = None"

fun learning_of :: "event \<Rightarrow> int option" where
  "learning_of (WriteLearning n l) = Some n"
| "learning_of ev = None"

definition requests :: "event list \<Rightarrow> int list" where
  "requests tr = List.map_filter request_of tr"

definition visits :: "event list \<Rightarrow> int list" where
  "visits tr = List.map_filter visit_of tr"

definition learned :: "event list \<Rightarrow> int list" where
  "learned tr = List.map_filter learning_of tr"

record run_state =
  rs_status :: ProcessingStatus
  rs_store :: store
  rs_trace :: "event list"

text \<open>\<open>getAllPRNumbers\<close>: the directories of \<open>data/pulls\<close> whose name scans as an integer.\<close>

fun scan_entry :: "lib \<Rightarrow> dir_entry \<Rightarrow> int option" where
  "scan_entry L (PlainFile name) = None"
| "scan_entry L (Dir name fs) = sscanf_d L name"

definition getAllPRNumbers :: "lib \<Rightarrow> store \<Rightarrow> error + int list" where
  "getAllPRNumbers L st =
     (case pulls st of
        None \<Rightarrow> Inl PullsDirUnreadable
      | Some entries \<Rightarrow> Inr (List.map_filter (scan_entry L) entries))"

text \<open>The files under \<open>data/pulls/{prNumber}\<close>, when that path is a directory.\<close>

definition pr_dir :: "store \<Rightarrow> int \<Rightarrow> pr_files option" where
  "pr_dir st prNumber =
     (case pulls st of
        None \<Rightarrow> None
      | Some entries \<Rightarrow>
          (case find (\<lambda>en. entry_name en = itoa prNumber) entries of
             Some (Dir name fs) \<Rightarrow> Some fs
           | _ \<Rightarrow> None))"

text \<open>\<open>loadJSON\<close> returns the decoded value or the error.\<close>

fun loadJSON :: "'a stored \<Rightarrow> error + 'a" where
  "loadJSON (Content v) = Inr v"
| "loadJSON (Malformed v) = Inl DecodeFailed"
| "loadJSON Absent = Inl OpenFailed"
| "loadJSON Unreadable = Inl OpenFailed"

text \<open>
  \<open>loadJSONSlice\<close> decodes into the caller's (nil) slice; \<open>loadPRData\<close> only logs its
  error and goes on with whatever the slice then holds.
\<close>

fun loadJSONSlice :: "'a list stored \<Rightarrow> 'a list" where
  "loadJSONSlice (Content v) = v"
| "loadJSONSlice (Malformed v) = v"
| "loadJSONSlice Absent = []"
| "loadJSONSlice Unreadable = []"

definition loadPRData :: "store \<Rightarrow> int \<Rightarrow> error + PRData" where
  "loadPRData st prNumber =
     (case pr_dir st prNumber of
        None \<Rightarrow> Inl OpenFailed
      | Some fs \<Rightarrow>
          (case loadJSON (pr_json fs) of
             Inl err \<Rightarrow> Inl err
           | Inr pr \<Rightarrow>
               Inr \<lparr>pd_PR = pr,
                    pd_Commits = loadJSONSlice (commits_json fs),
                    pd_Comments = loadJSONSlice (comments_json fs),
                    pd_Reviews = loadJSONSlice (reviews_json fs)\<rparr>))"

fun hasDiffHunk_loop :: "Comment list \<Rightarrow> bool" where
  "hasDiffHunk_loop [] = False"
| "hasDiffHunk_loop (comment # rest) =
     (if cm_DiffHunk comment \<noteq> [] then True else hasDiffHunk_loop rest)"

definition hasDiffHunk :: "PRData \<Rightarrow> bool" where
  "hasDiffHunk prData = hasDiffHunk_loop (pd_Comments prData)"

text \<open>
  The starting point: the index of the first number above the cursor; the loop leaves
  \<open>startIdx\<close> at its initial 0 when it finds none.
\<close>

fun find_start :: "int \<Rightarrow> int list \<Rightarrow> nat \<Rightarrow> nat option" where
  "find_start lastPR [] i = None"
| "find_start lastPR (num # rest) i =
     (if num > lastPR then Some i else find_start lastPR rest (Suc i))"

definition start_index :: "int \<Rightarrow> int list \<Rightarrow> nat" where
  "start_index lastPR prNumbers =
     (case find_start lastPR prNumbers 0 of Some i \<Rightarrow> i | None \<Rightarrow> 0)"

text \<open>
  One iteration of the loop of \<open>ProcessAllPRs\<close>: the loop goes on (every \<open>continue\<close>, and
  the end of the body), or the process dies in a panic of \<open>ProcessPR\<close>.
\<close>

datatype step = Goes_on run_state | Dies run_state

fun state_of :: "step \<Rightarrow> run_state" where
  "state_of (Goes_on s) = s"
| "state_of (Dies s) = s"

definition process_pr :: "lib \<Rightarrow> env \<Rightarrow> run_state \<Rightarrow> int \<Rightarrow> step" where
  "process_pr L e s prNumber =
     (let s1 = s\<lparr>rs_trace := rs_trace s @ [LoadPR prNumber]\<rparr> in
      case loadPRData (rs_store s) prNumber of
        Inl err \<Rightarrow> Goes_on s1
      | Inr prData \<Rightarrow>
          if pd_Comments prData = [] \<and> pd_Reviews prData = [] then Goes_on s1
          else if \<not> hasDiffHunk prData then Goes_on s1
          else
            (let k = length (requests (rs_trace s1));
                 s2 = s1\<lparr>rs_trace := rs_trace s1 @ [Generate prNumber prData]\<rparr> in
             case ProcessPR L e k prData of
               Panics \<Rightarrow> Dies s2
             | Gives (Inl err) \<Rightarrow> Goes_on s2
             | Gives (Inr learning) \<Rightarrow>
                 (case SaveLearning e (rs_store s2) learning of
                    Inl err \<Rightarrow> Goes_on s2
                  | Inr st1 \<Rightarrow>
                      (let status = (rs_status s2)
                             \<lparr>ps_ProcessedPRs := ps_ProcessedPRs (rs_status s2) + 1,
                              ps_LastPR := prNumber,
                              ps_UpdatedAt := now e\<rparr>;
                           s3 = s2\<lparr>rs_status := status, rs_store := st1,
                                  rs_trace := rs_trace s2 @ [WriteLearning prNumber learning]\<rparr>
                       in case SaveProcessingStatus e st1 status of
                            Inl err \<Rightarrow> Goes_on s3
                          | Inr st2 \<Rightarrow>
                              Goes_on (s3\<lparr>rs_store := st2,
                                         rs_trace := rs_trace s3 @ [WriteStatus status]\<rparr>)))))"

text \<open>
  How a run ends: \<open>ProcessAllPRs\<close> returns an error before the loop, the process dies
  in a panic (in the state reached), or \<open>ProcessAllPRs\<close> returns nil.
\<close>

datatype run_result = Failed error | Panicked run_state | Returned run_state

fun returned :: "run_result \<Rightarrow> run_state option" where
  "returned (Returned s) = Some s"
| "returned r = None"

fun ended :: "run_result \<Rightarrow> run_state option" where
  "ended (Failed err) = None"
| "ended (Panicked s) = Some s"
| "ended (Returned s) = Some s"

fun process_loop :: "lib \<Rightarrow> env \<Rightarrow> run_state \<Rightarrow> int list \<Rightarrow> run_result" where
  "process_loop L e s [] = Returned s"
| "process_loop L e s (prNumber # rest) =
     (case process_pr L e s prNumber of
        Dies s' \<Rightarrow> Panicked s'
      | Goes_on s' \<Rightarrow> process_loop L e s' rest)"

text \<open>
  \<open>ProcessAllPRs\<close>. With a nonzero cursor the log line reads \<open>prNumbers[startIdx]\<close>,
  which panics (index out of range) when there is no PR directory at all.
\<close>

definition ProcessAllPRs :: "lib \<Rightarrow> env \<Rightarrow> store \<Rightarrow> run_result" where
  "ProcessAllPRs L e st =
     (case LoadProcessingStatus st of
        Inl err \<Rightarrow> Failed StatusLoadFailed
      | Inr status0 \<Rightarrow>
          (case getAllPRNumbers L st of
             Inl err \<Rightarrow> Failed PullsDirUnreadable
           | Inr numbers \<Rightarrow>
               (let status = status0\<lparr>ps_TotalPRs := int (length numbers)\<rparr>;
                    prNumbers = sort numbers;
                    s0 = \<lparr>rs_status = status, rs_store = st, rs_trace = []\<rparr>
                in if ps_LastPR status > 0 then
                     (let startIdx = start_index (ps_LastPR status) prNumbers in
                      if startIdx < length prNumbers
                      then process_loop L e s0 (drop startIdx prNumbers)
                      else Panicked s0)
                   else process_loop L e s0 prNumbers)))"

text \<open>
  A PR the learning pass sends to the generation service: it has a comment or a review,
  and one of its comments carries a diff excerpt.
\<close>

definition reviewable :: "PRData \<Rightarrow> bool" where
  "reviewable d \<longleftrightarrow>
     \<not> (pd_Comments d = [] \<and> pd_Reviews d = []) \<and> (\<exists>c \<in> set (pd_Comments d). cm_DiffHunk c \<noteq> [])"

text \<open>
  Two runs in a row: the second starts from the store the first one left (also when the
  first one died).
\<close>

definition second_run :: "lib \<Rightarrow> env \<Rightarrow> store \<Rightarrow> run_result" where
  "second_run L e st =
     (case ProcessAllPRs L e st of
        Failed err \<Rightarrow> Failed err
      | Panicked s1 \<Rightarrow> ProcessAllPRs L e (rs_store s1)
      | Returned s1 \<Rightarrow> ProcessAllPRs L e (rs_store s1))"


section \<open>Reference instances for evaluation\<close>

text \<open>
  A scanner for the parameter \<open>sscanf_d\<close>: an optional sign, then the longest run of
  decimal digits, which must not be empty.
\<close>

definition is_digit :: "char \<Rightarrow> bool" where
  "is_digit c = (CHR ''0'' \<le> c \<and> c \<le> CHR ''9'')"

definition scan_unsigned :: "string \<Rightarrow> nat option" where
  "scan_unsigned s =
     (let ds = takeWhile is_digit s
      in if ds = [] then None
         else Some (foldl (\<lambda>acc c. acc * 10 + (of_char c - 48)) 0 ds))"

fun scan_decimal :: "string \<Rightarrow> int option" where
  "scan_decimal [] = None"
| "scan_decimal (c # cs) =
     (if c = CHR ''-'' then map_option (\<lambda>n. - int n) (scan_unsigned cs)
      else if c = CHR ''+'' then map_option int (scan_unsigned cs)
      else map_option int (scan_unsigned (c # cs)))"

text \<open>
  For the parameter \<open>unmarshal_result\<close>: the empty object decodes, leaving both slices
  nil; the other texts used below are not JSON.
\<close>

definition unmarshal_empty_object :: "string \<Rightarrow> (string list \<times> string list) option" where
  "unmarshal_empty_object text = (if text = ''{}'' then Some ([], []) else None)"

definition ref_lib :: lib where
  "ref_lib = \<lparr>sscanf_d = scan_decimal, unmarshal_result = unmarshal_empty_object\<rparr>"

section \<open>Package query\<close>

record CommentResult =
  cr_PRNumber :: int
  cr_PRTitle :: string
  cr_Author :: string
  cr_CommentType :: string
  cr_Body :: string
  cr_CreatedAt :: string
  cr_URL :: string
  cr_Path :: string
  cr_Line :: "int option"

text \<open>
  \<open>t.Format("2006-01-02 15:04:05")\<close>: each field in decimal, padded with zeros to its
  width (a negative year keeps its sign in front).
\<close>

definition pad :: "nat \<Rightarrow> string \<Rightarrow> string" where
  "pad w s = replicate (w - length s) CHR ''0'' @ s"

definition format_year :: "int \<Rightarrow> string" where
  "format_year y =
     (if y < 0 then CHR ''-'' # pad 4 (nat_digits (nat (- y))) else pad 4 (nat_digits (nat y)))"

definition format_time :: "GoTime \<Rightarrow> string" where
  "format_time t =
     format_year (t_year t) @ ''-'' @ pad 2 (nat_digits (t_month t)) @ ''-''
       @ pad 2 (nat_digits (t_day t)) @ '' '' @ pad 2 (nat_digits (t_hour t)) @ '':''
       @ pad 2 (nat_digits (t_minute t)) @ '':'' @ pad 2 (nat_digits (t_second t))"

text \<open>
  What the query takes from the Go runtime and library, as parameters:
  \<open>strings.TrimSpace\<close>; \<open>sort.Slice\<close>, as a function of the \<open>less\<close> closure and the
  slice; and the order in which a \<open>range\<close> over a map visits its keys, for the map of
  requested authors and for the map of PR groups (each is ranged over once), as a function
  of the keys the map holds. The documentation of \<open>sort.Slice\<close> promises a sorted
  rearrangement and no more (``the sort is not guaranteed to be stable''), and the
  language promises of a \<open>range\<close> over a map that it visits every key once, in an order
  that ``is not specified''; \<open>sort_contract\<close> and \<open>range_contract\<close> below are these
  promises.
\<close>

record qlib =
  trim_space :: "string \<Rightarrow> string"
  sort_slice :: "(CommentResult \<Rightarrow> CommentResult \<Rightarrow> bool) \<Rightarrow> CommentResult list \<Rightarrow> CommentResult list"
  range_authors :: "string list \<Rightarrow> string list"
  range_groups :: "int list \<Rightarrow> int list"

text \<open>\<open>strings.Split(s, ",")\<close>: the pieces between commas, one piece for a string without any.\<close>

fun split_comma :: "string \<Rightarrow> string list" where
  "split_comma [] = [[]]"
| "split_comma (c # cs) =
     (if c = CHR '','' then [] # split_comma cs
      else (case split_comma cs of
              w # ws \<Rightarrow> (c # w) # ws
            | [] \<Rightarrow> [[c]]))"

text \<open>
  The keys put into the \<open>authors\<close> map, in the order they are put (a key may come more
  than once; the map holds it once).
\<close>

definition parse_authors :: "qlib \<Rightarrow> string \<Rightarrow> string list" where
  "parse_authors Q authorsStr = map (trim_space Q) (split_comma authorsStr)"

fun loadFile :: "'a stored \<Rightarrow> error + 'a" where
  "loadFile (Content v) = Inr v"
| "loadFile (Malformed v) = Inl DecodeFailed"
| "loadFile Absent = Inl OpenFailed"
| "loadFile Unreadable = Inl OpenFailed"

definition loadMetadata :: "store \<Rightarrow> error + Metadata" where
  "loadMetadata st = loadFile (metadata_json st)"

definition loadPR :: "pr_files \<Rightarrow> error + PullRequest" where
  "loadPR fs = loadFile (pr_json fs)"

definition loadComments :: "pr_files \<Rightarrow> error + Comment list" where
  "loadComments fs = loadFile (comments_json fs)"

definition loadReviews :: "pr_files \<Rightarrow> error + Review list" where
  "loadReviews fs = loadFile (reviews_json fs)"

definition comment_row :: "PullRequest \<Rightarrow> Comment \<Rightarrow> CommentResult" where
  "comment_row pr comment =
     \<lparr>cr_PRNumber = pr_Number pr, cr_PRTitle = pr_Title pr,
      cr_Author = u_Login (cm_User comment), cr_CommentType = cm_Type comment,
      cr_Body = cm_Body comment, cr_CreatedAt = format_time (cm_CreatedAt comment),
      cr_URL = cm_HTMLURL comment, cr_Path = cm_Path comment, cr_Line = cm_Line comment\<rparr>"

definition review_row :: "PullRequest \<Rightarrow> Review \<Rightarrow> CommentResult" where
  "review_row pr review =
     \<lparr>cr_PRNumber = pr_Number pr, cr_PRTitle = pr_Title pr,
      cr_Author = u_Login (rv_User review), cr_CommentType = ''review'',
      cr_Body = rv_Body review, cr_CreatedAt = format_time (rv_SubmittedAt review),
      cr_URL = rv_HTMLURL review, cr_Path = [], cr_Line = None\<rparr>"

text \<open>The two filtering loops.\<close>

definition filter_comments :: "string list \<Rightarrow> PullRequest \<Rightarrow> Comment list \<Rightarrow> CommentResult list" where
  "filter_comments authors pr comments =
     map (comment_row pr) (filter (\<lambda>comment. u_Login (cm_User comment) \<in> set authors) comments)"

definition filter_reviews :: "string list \<Rightarrow> PullRequest \<Rightarrow> Review list \<Rightarrow> CommentResult list" where
  "filter_reviews authors pr reviews =
     map (review_row pr)
       (filter (\<lambda>review. u_Login (rv_User review) \<in> set authors \<and> rv_Body review \<noteq> []) reviews)"

text \<open>
  One iteration of the loop over the entries of \<open>data/pulls\<close>: the rows it appends, and
  the files it opened (by entry name and file).
\<close>

datatype pr_file = PRJson | CommentsJson | ReviewsJson

fun visit_entry :: "string list \<Rightarrow> dir_entry \<Rightarrow> CommentResult list \<times> (string \<times> pr_file) list" where
  "visit_entry authors (PlainFile name) = ([], [])"
| "visit_entry authors (Dir name fs) =
     (case loadPR fs of
        Inl err \<Rightarrow> ([], [(name, PRJson)])
      | Inr pr \<Rightarrow>
          (case loadComments fs of
             Inl err \<Rightarrow> ([], [(name, PRJson), (name, CommentsJson)])
           | Inr comments \<Rightarrow>
               (case loadReviews fs of
                  Inl err \<Rightarrow>
                    (filter_comments authors pr comments,
                     [(name, PRJson), (name, CommentsJson), (name, ReviewsJson)])
                | Inr reviews \<Rightarrow>
                    (filter_comments authors pr comments @ filter_reviews authors pr reviews,
                     [(name, PRJson), (name, CommentsJson), (name, ReviewsJson)]))))"

fun collect_results :: "string list \<Rightarrow> dir_entry list \<Rightarrow> CommentResult list" where
  "collect_results authors [] = []"
| "collect_results authors (en # rest) = fst (visit_entry authors en) @ collect_results authors rest"

text \<open>The closure given to \<open>sort.Slice\<close>; strings compare bytewise.\<close>

definition row_less :: "CommentResult \<Rightarrow> CommentResult \<Rightarrow> bool" where
  "row_less a b =
     (if cr_PRNumber a \<noteq> cr_PRNumber b then cr_PRNumber a < cr_PRNumber b
      else cr_CreatedAt a < cr_CreatedAt b)"

definition sort_contract :: "qlib \<Rightarrow> bool" where
  "sort_contract Q \<longleftrightarrow>
     (\<forall>xs. mset (sort_slice Q row_less xs) = mset xs
         \<and> sorted_wrt (\<lambda>a b. \<not> row_less b a) (sort_slice Q row_less xs))"

definition range_contract :: "qlib \<Rightarrow> bool" where
  "range_contract Q \<longleftrightarrow>
     (\<forall>ks. mset (range_authors Q ks) = mset ks) \<and> (\<forall>ks. mset (range_groups Q ks) = mset ks)"

text \<open>
  \<open>formatJSON\<close> and \<open>formatCSV\<close> produce text through \<open>encoding/json\<close> and
  \<open>encoding/csv\<close>; the model keeps what each is given to print: the rows, and the CSV
  records (header first). \<open>formatStdout\<close> builds its text itself, and the model builds
  the same text.
\<close>

datatype report =
    JSONOutput "CommentResult list"
  | CSVOutput "string list list"
  | StdoutOutput string

definition csv_header :: "string list" where
  "csv_header = [''PR Number'', ''PR Title'', ''Author'', ''Type'', ''Body'', ''Created At'',
     ''URL'', ''Path'', ''Line'']"

definition csv_record :: "CommentResult \<Rightarrow> string list" where
  "csv_record r =
     (let line = (case cr_Line r of None \<Rightarrow> [] | Some n \<Rightarrow> itoa n)
      in [itoa (cr_PRNumber r), cr_PRTitle r, cr_Author r, cr_CommentType r, cr_Body r,
          cr_CreatedAt r, cr_URL r, cr_Path r, line])"

definition formatCSV :: "CommentResult list \<Rightarrow> report" where
  "formatCSV results = CSVOutput (csv_header # map csv_record results)"

text \<open>
  \<open>formatStdout\<close>. The line feed; the map \<open>prGroups\<close> as an association list, a new
  key going to the end (\<open>prGroups[k] = append(prGroups[k], result)\<close>); what is printed for
  one row, the body cut to 497 bytes and three dots when it is longer than 500 bytes; what
  is printed for one group; and the text before the groups.
\<close>

definition nl :: string where
  "nl = [CHR 0x0A]"

definition add_to_group :: "(int \<times> CommentResult list) list \<Rightarrow> CommentResult \<Rightarrow> (int \<times> CommentResult list) list" where
  "add_to_group prGroups result =
     AList.update (cr_PRNumber result)
       ((case map_of prGroups (cr_PRNumber result) of None \<Rightarrow> [] | Some rs \<Rightarrow> rs) @ [result])
       prGroups"

definition group_results :: "CommentResult list \<Rightarrow> (int \<times> CommentResult list) list" where
  "group_results results = foldl add_to_group [] results"

definition print_body :: "string \<Rightarrow> string" where
  "print_body body = (if length body > 500 then take 497 body @ ''...'' else body)"

definition print_comment :: "CommentResult \<Rightarrow> string" where
  "print_comment comment =
     ''Author: '' @ cr_Author comment @ '' | Type: '' @ cr_CommentType comment
       @ '' | Date: '' @ cr_CreatedAt comment @ nl
     @ (if cr_Path comment \<noteq> []
        then ''File: '' @ cr_Path comment
               @ (case cr_Line comment of None \<Rightarrow> [] | Some n \<Rightarrow> '' (line '' @ itoa n @ '')'')
               @ nl
        else [])
     @ ''URL: '' @ cr_URL comment @ nl
     @ nl
     @ print_body (cr_Body comment)
     @ nl @ nl"

definition print_group :: "int \<Rightarrow> CommentResult list \<Rightarrow> string" where
  "print_group prNumber comments =
     (if length comments > 0
      then ''PR #'' @ itoa prNumber @ '': '' @ cr_PRTitle (hd comments) @ nl
             @ replicate 80 CHR ''-'' @ nl
             @ concat (map print_comment comments)
             @ nl
      else [])"

definition stdout_head :: "qlib \<Rightarrow> Metadata \<Rightarrow> string list \<Rightarrow> nat \<Rightarrow> nat \<Rightarrow> string" where
  "stdout_head Q metadata authors found groups =
     ''Repository: '' @ md_Owner metadata @ ''/'' @ md_Repository metadata @ nl
     @ ''Total PRs: '' @ itoa (md_TotalPRs metadata) @ nl
     @ ''Last Updated: '' @ format_time (md_LastUpdated metadata) @ nl
     @ nl
     @ ''Author Statistics:'' @ nl
     @ concat (map (\<lambda>author. ''  '' @ author @ '': ''
                       @ itoa (stat_of (md_AuthorStats metadata) author) @ '' comments'' @ nl)
                 (range_authors Q (remdups authors)))
     @ nl
     @ ''Found '' @ itoa (int found) @ '' comments from selected authors in ''
       @ itoa (int groups) @ '' PRs:'' @ nl @ nl"

definition formatStdout :: "qlib \<Rightarrow> CommentResult list \<Rightarrow> Metadata \<Rightarrow> string list \<Rightarrow> report" where
  "formatStdout Q results metadata authors =
     (let prGroups = group_results results in
      StdoutOutput
        (stdout_head Q metadata authors (length results) (length prGroups)
         @ concat (map (\<lambda>prNumber.
                          print_group prNumber
                            (case map_of prGroups prNumber of None \<Rightarrow> [] | Some comments \<Rightarrow> comments))
                     (range_groups Q (map fst prGroups)))))"

text \<open>The \<open>switch\<close> on the output format.\<close>

definition render :: "qlib \<Rightarrow> string \<Rightarrow> CommentResult list \<Rightarrow> Metadata \<Rightarrow> string list \<Rightarrow> report" where
  "render Q outputFormat results metadata authors =
     (if outputFormat = ''json'' then JSONOutput results
      else if outputFormat = ''csv'' then formatCSV results
      else formatStdout Q results metadata authors)"

definition FilterByAuthors :: "qlib \<Rightarrow> store \<Rightarrow> string \<Rightarrow> string \<Rightarrow> error + report" where
  "FilterByAuthors Q st authorsStr outputFormat =
     (let authors = parse_authors Q authorsStr in
      case loadMetadata st of
        Inl err \<Rightarrow> Inl MetadataLoadFailed
      | Inr metadata \<Rightarrow>
          (case pulls st of
             None \<Rightarrow> Inl PullsDirUnreadable
           | Some entries \<Rightarrow>
               (let results = sort_slice Q row_less (collect_results authors entries)
                in Inr (render Q outputFormat results metadata authors))))"

section \<open>\<open>sort.Slice\<close> on short slices\<close>





















section \<open>What the query is specified to return\<close>

text \<open>
  The claim as the specification words it: for every downloaded PR, the rows are its
  stored comments by a requested author and its stored reviews by a requested author that
  have a body. A row carries the PR number and title, the author, a type tag (the stored
  type of a comment, \<open>review\<close> for a review), the body, the formatted timestamp (of
  creation for a comment, of submission for a review), the URL of the page and, for a
  comment, its path and line.
\<close>

definition specified_comment_rows :: "string set \<Rightarrow> PullRequest \<Rightarrow> Comment list \<Rightarrow> CommentResult multiset" where
  "specified_comment_rows A pr cs =
     mset [\<lparr>cr_PRNumber = pr_Number pr, cr_PRTitle = pr_Title pr,
            cr_Author = u_Login (cm_User c), cr_CommentType = cm_Type c, cr_Body = cm_Body c,
            cr_CreatedAt = format_time (cm_CreatedAt c), cr_URL = cm_HTMLURL c,
            cr_Path = cm_Path c, cr_Line = cm_Line c\<rparr>.
           c \<leftarrow> cs, u_Login (cm_User c) \<in> A]"

definition specified_review_rows :: "string set \<Rightarrow> PullRequest \<Rightarrow> Review list \<Rightarrow> CommentResult multiset" where
  "specified_review_rows A pr rs =
     mset [\<lparr>cr_PRNumber = pr_Number pr, cr_PRTitle = pr_Title pr,
            cr_Author = u_Login (rv_User r), cr_CommentType = ''review'', cr_Body = rv_Body r,
            cr_CreatedAt = format_time (rv_SubmittedAt r), cr_URL = rv_HTMLURL r,
            cr_Path = [], cr_Line = None\<rparr>.
           r \<leftarrow> rs, u_Login (rv_User r) \<in> A \<and> rv_Body r \<noteq> []]"

text \<open>What a file holds, when it is there and well formed.\<close>

definition stored_items :: "'a list stored \<Rightarrow> 'a list" where
  "stored_items f = (case f of Content xs \<Rightarrow> xs | _ \<Rightarrow> [])"

fun claimed_entry_rows :: "string set \<Rightarrow> dir_entry \<Rightarrow> CommentResult multiset" where
  "claimed_entry_rows A (PlainFile name) = {#}"
| "claimed_entry_rows A (Dir name fs) =
     (case pr_json fs of
        Content pr \<Rightarrow>
          specified_comment_rows A pr (stored_items (comments_json fs))
          + specified_review_rows A pr (stored_items (reviews_json fs))
      | _ \<Rightarrow> {#})"

definition claimed_rows :: "string set \<Rightarrow> dir_entry list \<Rightarrow> CommentResult multiset" where
  "claimed_rows A entries = (\<Sum>en \<leftarrow> entries. claimed_entry_rows A en)"

text \<open>
  The claim as amended: a PR directory counts when its \<open>pr.json\<close> and its
  \<open>comments.json\<close> load, and its reviews count when its \<open>reviews.json\<close> loads as well.
\<close>

fun amended_entry_rows :: "string set \<Rightarrow> dir_entry \<Rightarrow> CommentResult multiset" where
  "amended_entry_rows A (PlainFile name) = {#}"
| "amended_entry_rows A (Dir name fs) =
     (case (pr_json fs, comments_json fs) of
        (Content pr, Content cs) \<Rightarrow>
          specified_comment_rows A pr cs
          + specified_review_rows A pr (stored_items (reviews_json fs))
      | _ \<Rightarrow> {#})"

definition amended_rows :: "string set \<Rightarrow> dir_entry list \<Rightarrow> CommentResult multiset" where
  "amended_rows A entries = (\<Sum>en \<leftarrow> entries. amended_entry_rows A en)"

text \<open>The order asked of the rows: PR number ascending, then timestamp string ascending.\<close>

definition row_le :: "CommentResult \<Rightarrow> CommentResult \<Rightarrow> bool" where
  "row_le a b \<longleftrightarrow>
     cr_PRNumber a < cr_PRNumber b
     \<or> (cr_PRNumber a = cr_PRNumber b \<and> cr_CreatedAt a \<le> cr_CreatedAt b)"



text \<open>
  Instances of the parameters for evaluation. \<open>ref_qlib\<close> sorts by insertion and ranges
  over a map in the order the keys went in; \<open>go_qlib\<close> sorts as \<open>sort.Slice\<close> does;
  \<open>backwards_qlib\<close> ranges over a map from the last key put to the first.
\<close>

fun insert_after :: "('a \<Rightarrow> 'a \<Rightarrow> bool) \<Rightarrow> 'a \<Rightarrow> 'a list \<Rightarrow> 'a list" where
  "insert_after lt x [] = [x]"
| "insert_after lt x (y # ys) = (if lt x y then x # y # ys else y # insert_after lt x ys)"

definition insertion_sort :: "('a \<Rightarrow> 'a \<Rightarrow> bool) \<Rightarrow> 'a list \<Rightarrow> 'a list" where
  "insertion_sort lt xs = foldl (\<lambda>acc x. insert_after lt x acc) [] xs"

definition is_space :: "char \<Rightarrow> bool" where
  "is_space c \<longleftrightarrow> c \<in> set [CHR '' '', CHR 0x09, CHR 0x0A, CHR 0x0B, CHR 0x0C, CHR 0x0D]"

definition ascii_trim :: "string \<Rightarrow> string" where
  "ascii_trim s = rev (dropWhile is_space (rev (dropWhile is_space s)))"

definition ref_qlib :: qlib where
  "ref_qlib = \<lparr>trim_space = ascii_trim, sort_slice = insertion_sort,
               range_authors = (\<lambda>ks. ks), range_groups = (\<lambda>ks. ks)\<rparr>"


definition backwards_qlib :: qlib where
  "backwards_qlib = ref_qlib\<lparr>range_authors := rev, range_groups := rev\<rparr>"

section \<open>Package downloader\<close>

text \<open>
  The GitHub client and the file system, as the downloader meets them. Each call is
  indexed by the position \<open>i\<close> of the PR in the combined list, so that a PR listed twice
  may be answered differently each time. \<open>save_fails_at\<close> names the step of
  \<open>savePRData\<close> that fails, if one does.
\<close>

datatype save_step = MkDir | SavePR | SaveCommits | SaveComments | SaveReviews

record client =
  GetPullRequests :: "string \<Rightarrow> error + PullRequest list"
  GetPRDetails :: "nat \<Rightarrow> int \<Rightarrow> error + PullRequest"
  GetPRCommits :: "nat \<Rightarrow> int \<Rightarrow> error + Commit list"
  getIssueComments :: "nat \<Rightarrow> int \<Rightarrow> error + Comment list"
  getReviewComments :: "nat \<Rightarrow> int \<Rightarrow> error + Comment list"
  GetPRReviews :: "nat \<Rightarrow> int \<Rightarrow> error + Review list"
  create_directories_fails :: bool
  save_fails_at :: "nat \<Rightarrow> int \<Rightarrow> save_step option"
  save_metadata_fails :: bool
  clock :: GoTime

record downloader =
  d_metadata :: Metadata
  d_store :: store

definition zero_time :: GoTime where
  "zero_time = \<lparr>t_year = 1, t_month = 1, t_day = 1, t_hour = 0, t_minute = 0, t_second = 0,
     t_nanosecond = 0, t_offset = 0, t_monotonic = None\<rparr>"

definition New :: "string \<Rightarrow> string \<Rightarrow> store \<Rightarrow> downloader" where
  "New owner repo st =
     \<lparr>d_metadata = \<lparr>md_LastUpdated = zero_time, md_TotalPRs = 0, md_Repository = repo,
                     md_Owner = owner, md_AuthorStats = []\<rparr>,
      d_store = st\<rparr>"

text \<open>\<open>Client.GetPRComments\<close>: the issue comments, then the review comments.\<close>

definition GetPRComments :: "client \<Rightarrow> nat \<Rightarrow> int \<Rightarrow> error + Comment list" where
  "GetPRComments c i prNumber =
     (case getIssueComments c i prNumber of
        Inl err \<Rightarrow> Inl err
      | Inr issueComments \<Rightarrow>
          (case getReviewComments c i prNumber of
             Inl err \<Rightarrow> Inl err
           | Inr reviewComments \<Rightarrow> Inr (issueComments @ reviewComments)))"

definition downloadPRData :: "client \<Rightarrow> nat \<Rightarrow> int \<Rightarrow> error + PRData" where
  "downloadPRData c i prNumber =
     (case GetPRDetails c i prNumber of
        Inl err \<Rightarrow> Inl FetchFailed
      | Inr pr \<Rightarrow>
          (case GetPRCommits c i prNumber of
             Inl err \<Rightarrow> Inl FetchFailed
           | Inr commits \<Rightarrow>
               (case GetPRComments c i prNumber of
                  Inl err \<Rightarrow> Inl FetchFailed
                | Inr comments \<Rightarrow>
                    (case GetPRReviews c i prNumber of
                       Inl err \<Rightarrow> Inl FetchFailed
                     | Inr reviews \<Rightarrow>
                         Inr \<lparr>pd_PR = pr, pd_Commits = commits, pd_Comments = comments,
                              pd_Reviews = reviews\<rparr>))))"

text \<open>
  \<open>createDirectories\<close>: \<open>data/pulls\<close> exists afterwards. \<open>savePRData\<close> writes the four
  files in order and stops at the step that fails (the encoder's errors included),
  leaving the files already written. A file that was written is recorded as holding the
  value it was written from; what the JSON form keeps of a value is the subject of the
  section on persistence.
\<close>

definition createDirectories :: "client \<Rightarrow> store \<Rightarrow> error + store" where
  "createDirectories c st =
     (if create_directories_fails c then Inl MkdirFailed
      else Inr (case pulls st of None \<Rightarrow> st\<lparr>pulls := Some []\<rparr> | Some entries \<Rightarrow> st))"

definition no_files :: pr_files where
  "no_files = \<lparr>pr_json = Absent, commits_json = Absent, comments_json = Absent,
     reviews_json = Absent\<rparr>"

fun update_entry :: "string \<Rightarrow> (pr_files \<Rightarrow> pr_files) \<Rightarrow> dir_entry list \<Rightarrow> dir_entry list" where
  "update_entry name f [] = [Dir name (f no_files)]"
| "update_entry name f (PlainFile n # rest) = PlainFile n # update_entry name f rest"
| "update_entry name f (Dir n fs # rest) =
     (if n = name then Dir n (f fs) # rest else Dir n fs # update_entry name f rest)"

definition in_pr_dir :: "int \<Rightarrow> (pr_files \<Rightarrow> pr_files) \<Rightarrow> store \<Rightarrow> store" where
  "in_pr_dir prNumber f st =
     st\<lparr>pulls := Some (update_entry (itoa prNumber) f (case pulls st of None \<Rightarrow> [] | Some es \<Rightarrow> es))\<rparr>"

definition savePRData :: "client \<Rightarrow> nat \<Rightarrow> int \<Rightarrow> PRData \<Rightarrow> store \<Rightarrow> error option \<times> store" where
  "savePRData c i prNumber data st =
     (let fails = save_fails_at c i prNumber in
      if fails = Some MkDir then (Some MkdirFailed, st)
      else
        (let st0 = in_pr_dir prNumber (\<lambda>fs. fs) st in
         if fails = Some SavePR then (Some WriteFailed, st0)
         else
           (let st1 = in_pr_dir prNumber (\<lambda>fs. fs\<lparr>pr_json := Content (pd_PR data)\<rparr>) st0 in
            if fails = Some SaveCommits then (Some WriteFailed, st1)
            else
              (let st2 = in_pr_dir prNumber (\<lambda>fs. fs\<lparr>commits_json := Content (pd_Commits data)\<rparr>) st1 in
               if fails = Some SaveComments then (Some WriteFailed, st2)
               else
                 (let st3 = in_pr_dir prNumber (\<lambda>fs. fs\<lparr>comments_json := Content (pd_Comments data)\<rparr>) st2 in
                  if fails = Some SaveReviews then (Some WriteFailed, st3)
                  else
                    (None, in_pr_dir prNumber (\<lambda>fs. fs\<lparr>reviews_json := Content (pd_Reviews data)\<rparr>) st3))))))"

text \<open>
  \<open>Downloader.loadMetadata\<close> decodes the file into the metadata the downloader already
  holds: a decoded map adds its entries to the map in place. The stored value is taken
  to hold every field, as \<open>saveMetadata\<close> writes it. The caller only logs an error, so a
  decoder that stopped halfway leaves what it had stored.
\<close>

definition decode_into :: "Metadata \<Rightarrow> Metadata \<Rightarrow> Metadata" where
  "decode_into old m =
     m\<lparr>md_AuthorStats :=
         foldl (\<lambda>acc kv. AList.update (fst kv) (snd kv) acc) (md_AuthorStats old) (md_AuthorStats m)\<rparr>"

definition load_metadata :: "downloader \<Rightarrow> downloader" where
  "load_metadata d =
     (case metadata_json (d_store d) of
        Content m \<Rightarrow> d\<lparr>d_metadata := decode_into (d_metadata d) m\<rparr>
      | Malformed m \<Rightarrow> d\<lparr>d_metadata := decode_into (d_metadata d) m\<rparr>
      | _ \<Rightarrow> d)"

text \<open>\<open>updateAuthorStats\<close>: one increment per comment, one per review with a body.\<close>

definition count_comments :: "(string \<times> int) list \<Rightarrow> Comment list \<Rightarrow> (string \<times> int) list" where
  "count_comments stats comments = foldl (\<lambda>m comment. incr m (u_Login (cm_User comment))) stats comments"

definition count_reviews :: "(string \<times> int) list \<Rightarrow> Review list \<Rightarrow> (string \<times> int) list" where
  "count_reviews stats reviews =
     foldl (\<lambda>m review. if rv_Body review \<noteq> [] then incr m (u_Login (rv_User review)) else m)
       stats reviews"

definition updateAuthorStats :: "Metadata \<Rightarrow> PRData \<Rightarrow> Metadata" where
  "updateAuthorStats md data =
     md\<lparr>md_AuthorStats :=
          count_reviews (count_comments (md_AuthorStats md) (pd_Comments data)) (pd_Reviews data)\<rparr>"

text \<open>One iteration of the loop of \<open>DownloadAll\<close>, for the PR at position \<open>i\<close>.\<close>

definition download_pr :: "client \<Rightarrow> downloader \<Rightarrow> nat \<times> PullRequest \<Rightarrow> downloader" where
  "download_pr c d ipr =
     (case ipr of (i, pr) \<Rightarrow>
        (case downloadPRData c i (pr_Number pr) of
           Inl err \<Rightarrow> d
         | Inr prData \<Rightarrow>
             (case savePRData c i (pr_Number pr) prData (d_store d) of
                (Some err, st) \<Rightarrow> d\<lparr>d_store := st\<rparr>
              | (None, st) \<Rightarrow>
                  d\<lparr>d_store := st, d_metadata := updateAuthorStats (d_metadata d) prData\<rparr>)))"

definition DownloadAll :: "client \<Rightarrow> downloader \<Rightarrow> error + downloader" where
  "DownloadAll c d =
     (case createDirectories c (d_store d) of
        Inl err \<Rightarrow> Inl err
      | Inr st \<Rightarrow>
          (let d1 = load_metadata (d\<lparr>d_store := st\<rparr>) in
           case GetPullRequests c ''closed'' of
             Inl err \<Rightarrow> Inl FetchFailed
           | Inr closedPRs \<Rightarrow>
               (case GetPullRequests c ''open'' of
                  Inl err \<Rightarrow> Inl FetchFailed
                | Inr openPRs \<Rightarrow>
                    (let allPRs = closedPRs @ openPRs;
                         d2 = d1\<lparr>d_metadata := (d_metadata d1)\<lparr>md_TotalPRs := int (length allPRs)\<rparr>\<rparr>;
                         d3 = foldl (download_pr c) d2 (enumerate 0 allPRs);
                         md = (d_metadata d3)\<lparr>md_LastUpdated := clock c\<rparr>
                     in if save_metadata_fails c then Inl WriteFailed
                        else Inr (d3\<lparr>d_metadata := md,
                                    d_store := (d_store d3)\<lparr>metadata_json := Content md\<rparr>\<rparr>)))))"

text \<open>
  What the statistics are specified to be: for an author, the comments of a PR by that
  author plus its reviews by that author with a body, summed over the PRs whose download
  and save both succeeded.
\<close>

definition authored :: "string \<Rightarrow> PRData \<Rightarrow> int" where
  "authored a data =
     int (length (filter (\<lambda>cm. u_Login (cm_User cm) = a) (pd_Comments data)))
   + int (length (filter (\<lambda>rv. u_Login (rv_User rv) = a \<and> rv_Body rv \<noteq> []) (pd_Reviews data)))"

definition downloaded_one :: "client \<Rightarrow> nat \<times> PullRequest \<Rightarrow> PRData option" where
  "downloaded_one c ipr =
     (case ipr of (i, pr) \<Rightarrow>
        (case downloadPRData c i (pr_Number pr) of
           Inl err \<Rightarrow> None
         | Inr prData \<Rightarrow> if save_fails_at c i (pr_Number pr) = None then Some prData else None))"

definition downloaded :: "client \<Rightarrow> PullRequest list \<Rightarrow> PRData list" where
  "downloaded c allPRs = List.map_filter (downloaded_one c) (enumerate 0 allPRs)"

section \<open>Persistence: the JSON form of the entities\<close>

text \<open>
  JSON values as \<open>encoding/json\<close> writes and reads them for the types of package
  models. \<open>JString s\<close> is a string with the bytes \<open>s\<close>. \<open>JTime t\<close> is the string that
  holds the RFC 3339 text of the time \<open>t\<close> (with nanoseconds and zone offset), for a
  time that has one.
\<close>

datatype json =
    JNull
  | JNumber int
  | JString string
  | JTime GoTime
  | JArray "json list"
  | JObject "(string \<times> json) list"

type_synonym members = "(string \<times> json) list"

text \<open>
  Strings. The encoder copies a string rune by rune and writes the replacement character
  U+FFFD for every byte that does not start a valid UTF-8 encoding
  (\<open>utf8.DecodeRuneInString\<close> gives \<open>RuneError\<close> with width 1); the decoder does the same
  with the bytes it reads. \<open>rune_len\<close> is the width of the valid encoding at the head of
  a string, 0 when there is none.
\<close>

definition in_range :: "char \<Rightarrow> nat \<Rightarrow> nat \<Rightarrow> bool" where
  "in_range c lo hi \<longleftrightarrow> lo \<le> of_char c \<and> of_char c \<le> hi"

fun rune_len :: "string \<Rightarrow> nat" where
  "rune_len [] = 0"
| "rune_len (c # cs) =
     (let b = of_char c :: nat in
      if b < 0x80 then 1
      else if 0xC2 \<le> b \<and> b \<le> 0xDF then
        (case cs of
           c1 # rest \<Rightarrow> if in_range c1 0x80 0xBF then 2 else 0
         | _ \<Rightarrow> 0)
      else if 0xE0 \<le> b \<and> b \<le> 0xEF then
        (case cs of
           c1 # c2 # rest \<Rightarrow>
             if in_range c1 (if b = 0xE0 then 0xA0 else 0x80) (if b = 0xED then 0x9F else 0xBF)
                \<and> in_range c2 0x80 0xBF
             then 3 else 0
         | _ \<Rightarrow> 0)
      else if 0xF0 \<le> b \<and> b \<le> 0xF4 then
        (case cs of
           c1 # c2 # c3 # rest \<Rightarrow>
             if in_range c1 (if b = 0xF0 then 0x90 else 0x80) (if b = 0xF4 then 0x8F else 0xBF)
                \<and> in_range c2 0x80 0xBF \<and> in_range c3 0x80 0xBF
             then 4 else 0
         | _ \<Rightarrow> 0)
      else 0)"

declare rune_len.simps(2) [simp del]

definition replacement_char :: string where
  "replacement_char = [CHR 0xEF, CHR 0xBF, CHR 0xBD]"

function to_valid_utf8 :: "string \<Rightarrow> string" where
  "to_valid_utf8 [] = []"
| "to_valid_utf8 (c # cs) =
     (let n = rune_len (c # cs) in
      if n = 0 then replacement_char @ to_valid_utf8 cs
      else c # take (n - 1) cs @ to_valid_utf8 (drop (n - 1) cs))"
  by pat_completeness auto
termination
  by (relation "measure length") auto

text \<open>\<open>utf8.ValidString\<close>.\<close>

function valid_utf8 :: "string \<Rightarrow> bool" where
  "valid_utf8 [] = True"
| "valid_utf8 (c # cs) =
     (let n = rune_len (c # cs) in n \<noteq> 0 \<and> valid_utf8 (drop (n - 1) cs))"
  by pat_completeness auto
termination
  by (relation "measure length") auto

definition enc_string :: "string \<Rightarrow> json" where
  "enc_string s = JString (to_valid_utf8 s)"

text \<open>
  Timestamps. \<open>Time.MarshalJSON\<close> returns an error for a year outside 0..9999 and for a
  zone offset of 24 hours or more. The text it writes has the civil time and the zone
  offset in hours and minutes (the offset divided by 60, towards zero); the monotonic
  reading is not written. \<open>wire_time t\<close> is the time that text denotes.
\<close>

definition time_encodable :: "GoTime \<Rightarrow> bool" where
  "time_encodable t \<longleftrightarrow> 0 \<le> t_year t \<and> t_year t \<le> 9999 \<and> abs (t_offset t) div 60 div 60 < 24"

definition wire_time :: "GoTime \<Rightarrow> GoTime" where
  "wire_time t =
     t\<lparr>t_offset := sgn (t_offset t) * (abs (t_offset t) div 60) * 60, t_monotonic := None\<rparr>"

definition enc_time :: "GoTime \<Rightarrow> json" where
  "enc_time t = JTime (wire_time t)"

text \<open>
  A struct is written as an object with one member per field, under the name of the
  field's tag; a field tagged \<open>omitempty\<close> is left out when it is the empty string or a nil
  pointer. A nil slice is written as \<open>null\<close>.
\<close>

definition str_omitempty :: "string \<Rightarrow> string \<Rightarrow> members" where
  "str_omitempty k s = (if s = [] then [] else [(k, enc_string s)])"

definition ptr_omitempty :: "string \<Rightarrow> ('a \<Rightarrow> json) \<Rightarrow> 'a option \<Rightarrow> members" where
  "ptr_omitempty k enc p = (case p of None \<Rightarrow> [] | Some v \<Rightarrow> [(k, enc v)])"

definition marshal_slice :: "('a \<Rightarrow> json) \<Rightarrow> 'a list \<Rightarrow> json" where
  "marshal_slice enc xs = (if xs = [] then JNull else JArray (map enc xs))"

text \<open>
  Reading a member: the last member of that name counts. A missing member or \<open>null\<close>
  leaves the zero value (nil for a pointer); a value of the wrong kind is an error.
\<close>

fun orelse :: "'a option \<Rightarrow> 'a option \<Rightarrow> 'a option" where
  "orelse (Some a) y = Some a"
| "orelse None y = y"

fun get :: "string \<Rightarrow> members \<Rightarrow> json option" where
  "get k [] = None"
| "get k (m # ms) = orelse (get k ms) (if fst m = k then Some (snd m) else None)"

fun dec_string :: "json option \<Rightarrow> string option" where
  "dec_string None = Some []"
| "dec_string (Some JNull) = Some []"
| "dec_string (Some (JString s)) = Some (to_valid_utf8 s)"
| "dec_string (Some v) = None"

fun dec_int :: "json option \<Rightarrow> int option" where
  "dec_int None = Some 0"
| "dec_int (Some JNull) = Some 0"
| "dec_int (Some (JNumber n)) = Some n"
| "dec_int (Some v) = None"

fun dec_time :: "json option \<Rightarrow> GoTime option" where
  "dec_time None = Some zero_time"
| "dec_time (Some JNull) = Some zero_time"
| "dec_time (Some (JTime t)) = (if time_encodable t then Some (wire_time t) else None)"
| "dec_time (Some v) = None"

fun dec_ptr :: "(json option \<Rightarrow> 'a option) \<Rightarrow> json option \<Rightarrow> 'a option option" where
  "dec_ptr dec None = Some None"
| "dec_ptr dec (Some JNull) = Some None"
| "dec_ptr dec (Some v) = map_option Some (dec (Some v))"

fun dec_slice :: "(json option \<Rightarrow> 'a option) \<Rightarrow> json option \<Rightarrow> 'a list option" where
  "dec_slice dec None = Some []"
| "dec_slice dec (Some JNull) = Some []"
| "dec_slice dec (Some (JArray vs)) = those (map (\<lambda>v. dec (Some v)) vs)"
| "dec_slice dec (Some v) = None"

definition marshal_User :: "User \<Rightarrow> json" where
  "marshal_User u =
     JObject [(''login'', enc_string (u_Login u)), (''id'', JNumber (u_ID u)),
              (''avatar_url'', enc_string (u_AvatarURL u)), (''html_url'', enc_string (u_HTMLURL u)),
              (''type'', enc_string (u_Type u))]"

definition zero_User :: User where
  "zero_User = \<lparr>u_Login = [], u_ID = 0, u_AvatarURL = [], u_HTMLURL = [], u_Type = []\<rparr>"

definition unmarshal_User_members :: "members \<Rightarrow> User option" where
  "unmarshal_User_members ms =
     Option.bind (dec_string (get ''login'' ms)) (\<lambda>login.
     Option.bind (dec_int (get ''id'' ms)) (\<lambda>ident.
     Option.bind (dec_string (get ''avatar_url'' ms)) (\<lambda>avatar.
     Option.bind (dec_string (get ''html_url'' ms)) (\<lambda>html.
     Option.bind (dec_string (get ''type'' ms)) (\<lambda>ty.
       Some \<lparr>u_Login = login, u_ID = ident, u_AvatarURL = avatar, u_HTMLURL = html, u_Type = ty\<rparr>)))))"

fun dec_User :: "json option \<Rightarrow> User option" where
  "dec_User None = Some zero_User"
| "dec_User (Some JNull) = Some zero_User"
| "dec_User (Some (JObject ms)) = unmarshal_User_members ms"
| "dec_User (Some v) = None"

definition marshal_Branch :: "Branch \<Rightarrow> json" where
  "marshal_Branch b =
     JObject [(''label'', enc_string (b_Label b)), (''ref'', enc_string (b_Ref b)),
              (''sha'', enc_string (b_SHA b))]"

definition zero_Branch :: Branch where
  "zero_Branch = \<lparr>b_Label = [], b_Ref = [], b_SHA = []\<rparr>"

definition unmarshal_Branch_members :: "members \<Rightarrow> Branch option" where
  "unmarshal_Branch_members ms =
     Option.bind (dec_string (get ''label'' ms)) (\<lambda>label.
     Option.bind (dec_string (get ''ref'' ms)) (\<lambda>ref.
     Option.bind (dec_string (get ''sha'' ms)) (\<lambda>sha.
       Some \<lparr>b_Label = label, b_Ref = ref, b_SHA = sha\<rparr>)))"

fun dec_Branch :: "json option \<Rightarrow> Branch option" where
  "dec_Branch None = Some zero_Branch"
| "dec_Branch (Some JNull) = Some zero_Branch"
| "dec_Branch (Some (JObject ms)) = unmarshal_Branch_members ms"
| "dec_Branch (Some v) = None"

definition PullRequest_members :: "PullRequest \<Rightarrow> members" where
  "PullRequest_members pr =
     [(''number'', JNumber (pr_Number pr)), (''title'', enc_string (pr_Title pr)),
      (''state'', enc_string (pr_State pr)), (''body'', enc_string (pr_Body pr)),
      (''created_at'', enc_time (pr_CreatedAt pr)), (''updated_at'', enc_time (pr_UpdatedAt pr))]
     @ ptr_omitempty ''closed_at'' enc_time (pr_ClosedAt pr)
     @ ptr_omitempty ''merged_at'' enc_time (pr_MergedAt pr)
     @ [(''user'', marshal_User (pr_User pr)), (''base'', marshal_Branch (pr_Base pr)),
        (''head'', marshal_Branch (pr_Head pr)), (''url'', enc_string (pr_URL pr)),
        (''html_url'', enc_string (pr_HTMLURL pr)), (''comments_url'', enc_string (pr_CommentsURL pr)),
        (''review_comments'', JNumber (pr_ReviewComments pr)),
        (''comments'', JNumber (pr_Comments pr)), (''commits'', JNumber (pr_Commits pr)),
        (''additions'', JNumber (pr_Additions pr)), (''deletions'', JNumber (pr_Deletions pr)),
        (''changed_files'', JNumber (pr_ChangedFiles pr))]"

definition marshal_PullRequest :: "PullRequest \<Rightarrow> json" where
  "marshal_PullRequest pr = JObject (PullRequest_members pr)"

definition unmarshal_PullRequest_members :: "members \<Rightarrow> PullRequest option" where
  "unmarshal_PullRequest_members ms =
     Option.bind (dec_int (get ''number'' ms)) (\<lambda>number.
     Option.bind (dec_string (get ''title'' ms)) (\<lambda>title.
     Option.bind (dec_string (get ''state'' ms)) (\<lambda>state.
     Option.bind (dec_string (get ''body'' ms)) (\<lambda>body.
     Option.bind (dec_time (get ''created_at'' ms)) (\<lambda>created.
     Option.bind (dec_time (get ''updated_at'' ms)) (\<lambda>updated.
     Option.bind (dec_ptr dec_time (get ''closed_at'' ms)) (\<lambda>closed.
     Option.bind (dec_ptr dec_time (get ''merged_at'' ms)) (\<lambda>merged.
     Option.bind (dec_User (get ''user'' ms)) (\<lambda>user.
     Option.bind (dec_Branch (get ''base'' ms)) (\<lambda>base.
     Option.bind (dec_Branch (get ''head'' ms)) (\<lambda>head.
     Option.bind (dec_string (get ''url'' ms)) (\<lambda>url.
     Option.bind (dec_string (get ''html_url'' ms)) (\<lambda>html.
     Option.bind (dec_string (get ''comments_url'' ms)) (\<lambda>curl.
     Option.bind (dec_int (get ''review_comments'' ms)) (\<lambda>rc.
     Option.bind (dec_int (get ''comments'' ms)) (\<lambda>cs.
     Option.bind (dec_int (get ''commits'' ms)) (\<lambda>commits.
     Option.bind (dec_int (get ''additions'' ms)) (\<lambda>additions.
     Option.bind (dec_int (get ''deletions'' ms)) (\<lambda>deletions.
     Option.bind (dec_int (get ''changed_files'' ms)) (\<lambda>changed.
       Some \<lparr>pr_Number = number, pr_Title = title, pr_State = state, pr_Body = body,
             pr_CreatedAt = created, pr_UpdatedAt = updated, pr_ClosedAt = closed,
             pr_MergedAt = merged, pr_User = user, pr_Base = base, pr_Head = head,
             pr_URL = url, pr_HTMLURL = html, pr_CommentsURL = curl,
             pr_ReviewComments = rc, pr_Comments = cs, pr_Commits = commits,
             pr_Additions = additions, pr_Deletions = deletions,
             pr_ChangedFiles = changed\<rparr>))))))))))))))))))))"

fun unmarshal_PullRequest :: "json \<Rightarrow> PullRequest option" where
  "unmarshal_PullRequest (JObject ms) = unmarshal_PullRequest_members ms"
| "unmarshal_PullRequest v = None"

definition Commit_members :: "Commit \<Rightarrow> members" where
  "Commit_members c =
     [(''sha'', enc_string (ci_SHA c)), (''author'', marshal_User (ci_Author c)),
      (''committer'', marshal_User (ci_Committer c)), (''message'', enc_string (ci_Message c)),
      (''url'', enc_string (ci_URL c)), (''date'', enc_time (ci_Date c))]"

definition marshal_Commit :: "Commit \<Rightarrow> json" where
  "marshal_Commit c = JObject (Commit_members c)"

definition unmarshal_Commit_members :: "members \<Rightarrow> Commit option" where
  "unmarshal_Commit_members ms =
     Option.bind (dec_string (get ''sha'' ms)) (\<lambda>sha.
     Option.bind (dec_User (get ''author'' ms)) (\<lambda>author.
     Option.bind (dec_User (get ''committer'' ms)) (\<lambda>committer.
     Option.bind (dec_string (get ''message'' ms)) (\<lambda>message.
     Option.bind (dec_string (get ''url'' ms)) (\<lambda>url.
     Option.bind (dec_time (get ''date'' ms)) (\<lambda>date.
       Some \<lparr>ci_SHA = sha, ci_Author = author, ci_Committer = committer,
             ci_Message = message, ci_URL = url, ci_Date = date\<rparr>))))))"

definition zero_Commit :: Commit where
  "zero_Commit = \<lparr>ci_SHA = [], ci_Author = zero_User, ci_Committer = zero_User,
     ci_Message = [], ci_URL = [], ci_Date = zero_time\<rparr>"

fun dec_Commit :: "json option \<Rightarrow> Commit option" where
  "dec_Commit None = Some zero_Commit"
| "dec_Commit (Some JNull) = Some zero_Commit"
| "dec_Commit (Some (JObject ms)) = unmarshal_Commit_members ms"
| "dec_Commit (Some v) = None"

definition Comment_members :: "Comment \<Rightarrow> members" where
  "Comment_members c =
     [(''id'', JNumber (cm_ID c)), (''body'', enc_string (cm_Body c)),
      (''user'', marshal_User (cm_User c)), (''created_at'', enc_time (cm_CreatedAt c)),
      (''updated_at'', enc_time (cm_UpdatedAt c)), (''url'', enc_string (cm_URL c)),
      (''html_url'', enc_string (cm_HTMLURL c)), (''type'', enc_string (cm_Type c))]
     @ str_omitempty ''path'' (cm_Path c)
     @ ptr_omitempty ''position'' JNumber (cm_Position c)
     @ ptr_omitempty ''line'' JNumber (cm_Line c)
     @ ptr_omitempty ''start_line'' JNumber (cm_StartLine c)
     @ ptr_omitempty ''original_position'' JNumber (cm_OriginalPosition c)
     @ ptr_omitempty ''original_start_line'' JNumber (cm_OriginalStartLine c)
     @ str_omitempty ''commit_id'' (cm_CommitID c)
     @ str_omitempty ''original_commit_id'' (cm_OriginalCommitID c)
     @ str_omitempty ''diff_hunk'' (cm_DiffHunk c)
     @ ptr_omitempty ''in_reply_to_id'' JNumber (cm_InReplyToID c)"

definition marshal_Comment :: "Comment \<Rightarrow> json" where
  "marshal_Comment c = JObject (Comment_members c)"

definition unmarshal_Comment_members :: "members \<Rightarrow> Comment option" where
  "unmarshal_Comment_members ms =
     Option.bind (dec_int (get ''id'' ms)) (\<lambda>ident.
     Option.bind (dec_string (get ''body'' ms)) (\<lambda>body.
     Option.bind (dec_User (get ''user'' ms)) (\<lambda>user.
     Option.bind (dec_time (get ''created_at'' ms)) (\<lambda>created.
     Option.bind (dec_time (get ''updated_at'' ms)) (\<lambda>updated.
     Option.bind (dec_string (get ''url'' ms)) (\<lambda>url.
     Option.bind (dec_string (get ''html_url'' ms)) (\<lambda>html.
     Option.bind (dec_string (get ''type'' ms)) (\<lambda>ty.
     Option.bind (dec_string (get ''path'' ms)) (\<lambda>path.
     Option.bind (dec_ptr dec_int (get ''position'' ms)) (\<lambda>position.
     Option.bind (dec_ptr dec_int (get ''line'' ms)) (\<lambda>line.
     Option.bind (dec_ptr dec_int (get ''start_line'' ms)) (\<lambda>start_line.
     Option.bind (dec_ptr dec_int (get ''original_position'' ms)) (\<lambda>original_position.
     Option.bind (dec_ptr dec_int (get ''original_start_line'' ms)) (\<lambda>original_start_line.
     Option.bind (dec_string (get ''commit_id'' ms)) (\<lambda>commit_id.
     Option.bind (dec_string (get ''original_commit_id'' ms)) (\<lambda>original_commit_id.
     Option.bind (dec_string (get ''diff_hunk'' ms)) (\<lambda>diff_hunk.
     Option.bind (dec_ptr dec_int (get ''in_reply_to_id'' ms)) (\<lambda>in_reply_to.
       Some \<lparr>cm_ID = ident, cm_Body = body, cm_User = user, cm_CreatedAt = created,
             cm_UpdatedAt = updated, cm_URL = url, cm_HTMLURL = html, cm_Type = ty,
             cm_Path = path, cm_Position = position, cm_Line = line,
             cm_StartLine = start_line, cm_OriginalPosition = original_position,
             cm_OriginalStartLine = original_start_line, cm_CommitID = commit_id,
             cm_OriginalCommitID = original_commit_id, cm_DiffHunk = diff_hunk,
             cm_InReplyToID = in_reply_to\<rparr>))))))))))))))))))"

definition zero_Comment :: Comment where
  "zero_Comment =
     \<lparr>cm_ID = 0, cm_Body = [], cm_User = zero_User, cm_CreatedAt = zero_time,
      cm_UpdatedAt = zero_time, cm_URL = [], cm_HTMLURL = [], cm_Type = [], cm_Path = [],
      cm_Position = None, cm_Line = None, cm_StartLine = None, cm_OriginalPosition = None,
      cm_OriginalStartLine = None, cm_CommitID = [], cm_OriginalCommitID = [],
      cm_DiffHunk = [], cm_InReplyToID = None\<rparr>"

fun dec_Comment :: "json option \<Rightarrow> Comment option" where
  "dec_Comment None = Some zero_Comment"
| "dec_Comment (Some JNull) = Some zero_Comment"
| "dec_Comment (Some (JObject ms)) = unmarshal_Comment_members ms"
| "dec_Comment (Some v) = None"

definition Review_members :: "Review \<Rightarrow> members" where
  "Review_members r =
     [(''id'', JNumber (rv_ID r)), (''user'', marshal_User (rv_User r)),
      (''body'', enc_string (rv_Body r)), (''state'', enc_string (rv_State r)),
      (''html_url'', enc_string (rv_HTMLURL r)), (''submitted_at'', enc_time (rv_SubmittedAt r)),
      (''commit_id'', enc_string (rv_CommitID r))]"

definition marshal_Review :: "Review \<Rightarrow> json" where
  "marshal_Review r = JObject (Review_members r)"

definition unmarshal_Review_members :: "members \<Rightarrow> Review option" where
  "unmarshal_Review_members ms =
     Option.bind (dec_int (get ''id'' ms)) (\<lambda>ident.
     Option.bind (dec_User (get ''user'' ms)) (\<lambda>user.
     Option.bind (dec_string (get ''body'' ms)) (\<lambda>body.
     Option.bind (dec_string (get ''state'' ms)) (\<lambda>state.
     Option.bind (dec_string (get ''html_url'' ms)) (\<lambda>html.
     Option.bind (dec_time (get ''submitted_at'' ms)) (\<lambda>submitted.
     Option.bind (dec_string (get ''commit_id'' ms)) (\<lambda>commit_id.
       Some \<lparr>rv_ID = ident, rv_User = user, rv_Body = body, rv_State = state,
             rv_HTMLURL = html, rv_SubmittedAt = submitted, rv_CommitID = commit_id\<rparr>)))))))"

definition zero_Review :: Review where
  "zero_Review =
     \<lparr>rv_ID = 0, rv_User = zero_User, rv_Body = [], rv_State = [], rv_HTMLURL = [],
      rv_SubmittedAt = zero_time, rv_CommitID = []\<rparr>"

fun dec_Review :: "json option \<Rightarrow> Review option" where
  "dec_Review None = Some zero_Review"
| "dec_Review (Some JNull) = Some zero_Review"
| "dec_Review (Some (JObject ms)) = unmarshal_Review_members ms"
| "dec_Review (Some v) = None"

text \<open>
  A Go map: one member per key, in key order, the key written as a string is. A key that
  is read is a string that is read.
\<close>

definition marshal_map :: "(string \<times> int) list \<Rightarrow> json" where
  "marshal_map al =
     JObject (map (\<lambda>kv. (to_valid_utf8 (fst kv), JNumber (snd kv)))
                (sort_key fst (AList.clearjunk al)))"

definition dec_entry :: "string \<times> json \<Rightarrow> (string \<times> int) option" where
  "dec_entry m = map_option (Pair (to_valid_utf8 (fst m))) (dec_int (Some (snd m)))"

fun dec_map :: "json option \<Rightarrow> (string \<times> int) list option" where
  "dec_map None = Some []"
| "dec_map (Some JNull) = Some []"
| "dec_map (Some (JObject ms)) =
     map_option (foldl (\<lambda>acc kv. AList.update (fst kv) (snd kv) acc) []) (those (map dec_entry ms))"
| "dec_map (Some v) = None"

definition Metadata_members :: "Metadata \<Rightarrow> members" where
  "Metadata_members md =
     [(''last_updated'', enc_time (md_LastUpdated md)), (''total_prs'', JNumber (md_TotalPRs md)),
      (''repository'', enc_string (md_Repository md)), (''owner'', enc_string (md_Owner md)),
      (''author_stats'', marshal_map (md_AuthorStats md))]"

definition marshal_Metadata :: "Metadata \<Rightarrow> json" where
  "marshal_Metadata md = JObject (Metadata_members md)"

definition unmarshal_Metadata_members :: "members \<Rightarrow> Metadata option" where
  "unmarshal_Metadata_members ms =
     Option.bind (dec_time (get ''last_updated'' ms)) (\<lambda>updated.
     Option.bind (dec_int (get ''total_prs'' ms)) (\<lambda>total.
     Option.bind (dec_string (get ''repository'' ms)) (\<lambda>repository.
     Option.bind (dec_string (get ''owner'' ms)) (\<lambda>owner.
     Option.bind (dec_map (get ''author_stats'' ms)) (\<lambda>stats.
       Some \<lparr>md_LastUpdated = updated, md_TotalPRs = total, md_Repository = repository,
             md_Owner = owner, md_AuthorStats = stats\<rparr>)))))"

fun unmarshal_Metadata :: "json \<Rightarrow> Metadata option" where
  "unmarshal_Metadata (JObject ms) = unmarshal_Metadata_members ms"
| "unmarshal_Metadata v = None"

definition unmarshal_Commits :: "json \<Rightarrow> Commit list option" where
  "unmarshal_Commits v = dec_slice dec_Commit (Some v)"

definition unmarshal_Comments :: "json \<Rightarrow> Comment list option" where
  "unmarshal_Comments v = dec_slice dec_Comment (Some v)"

definition unmarshal_Reviews :: "json \<Rightarrow> Review list option" where
  "unmarshal_Reviews v = dec_slice dec_Review (Some v)"

text \<open>
  \<open>saveJSON\<close>: the encoder returns an error, and nothing that can be read back is
  written, when a timestamp of the value cannot be encoded; otherwise the file holds the
  JSON form of the value.
\<close>

definition ptr_encodable :: "GoTime option \<Rightarrow> bool" where
  "ptr_encodable p = (case p of None \<Rightarrow> True | Some t \<Rightarrow> time_encodable t)"

definition PullRequest_encodable :: "PullRequest \<Rightarrow> bool" where
  "PullRequest_encodable pr \<longleftrightarrow>
     time_encodable (pr_CreatedAt pr) \<and> time_encodable (pr_UpdatedAt pr)
     \<and> ptr_encodable (pr_ClosedAt pr) \<and> ptr_encodable (pr_MergedAt pr)"

definition Comment_encodable :: "Comment \<Rightarrow> bool" where
  "Comment_encodable c \<longleftrightarrow> time_encodable (cm_CreatedAt c) \<and> time_encodable (cm_UpdatedAt c)"

definition saveJSON_PullRequest :: "PullRequest \<Rightarrow> json option" where
  "saveJSON_PullRequest pr = (if PullRequest_encodable pr then Some (marshal_PullRequest pr) else None)"

definition saveJSON_Commits :: "Commit list \<Rightarrow> json option" where
  "saveJSON_Commits cs =
     (if list_all (\<lambda>c. time_encodable (ci_Date c)) cs then Some (marshal_slice marshal_Commit cs)
      else None)"

definition saveJSON_Comments :: "Comment list \<Rightarrow> json option" where
  "saveJSON_Comments cs =
     (if list_all Comment_encodable cs then Some (marshal_slice marshal_Comment cs) else None)"

definition saveJSON_Reviews :: "Review list \<Rightarrow> json option" where
  "saveJSON_Reviews rs =
     (if list_all (\<lambda>r. time_encodable (rv_SubmittedAt r)) rs then Some (marshal_slice marshal_Review rs)
      else None)"

definition saveJSON_Metadata :: "Metadata \<Rightarrow> json option" where
  "saveJSON_Metadata md =
     (if time_encodable (md_LastUpdated md) then Some (marshal_Metadata md) else None)"

text \<open>
  Values that the JSON form carries whole: every string is valid UTF-8, and every
  timestamp has a year in 0..9999, a zone offset of whole minutes below 24 hours, and no
  monotonic reading.
\<close>

definition exact_time :: "GoTime \<Rightarrow> bool" where
  "exact_time t \<longleftrightarrow> time_encodable t \<and> t_offset t mod 60 = 0 \<and> t_monotonic t = None"

definition exact_ptr :: "GoTime option \<Rightarrow> bool" where
  "exact_ptr p = (case p of None \<Rightarrow> True | Some t \<Rightarrow> exact_time t)"

definition exact_User :: "User \<Rightarrow> bool" where
  "exact_User u \<longleftrightarrow>
     valid_utf8 (u_Login u) \<and> valid_utf8 (u_AvatarURL u) \<and> valid_utf8 (u_HTMLURL u)
     \<and> valid_utf8 (u_Type u)"

definition exact_Branch :: "Branch \<Rightarrow> bool" where
  "exact_Branch b \<longleftrightarrow> valid_utf8 (b_Label b) \<and> valid_utf8 (b_Ref b) \<and> valid_utf8 (b_SHA b)"

definition exact_PullRequest :: "PullRequest \<Rightarrow> bool" where
  "exact_PullRequest pr \<longleftrightarrow>
     valid_utf8 (pr_Title pr) \<and> valid_utf8 (pr_State pr) \<and> valid_utf8 (pr_Body pr)
     \<and> exact_time (pr_CreatedAt pr) \<and> exact_time (pr_UpdatedAt pr)
     \<and> exact_ptr (pr_ClosedAt pr) \<and> exact_ptr (pr_MergedAt pr)
     \<and> exact_User (pr_User pr) \<and> exact_Branch (pr_Base pr) \<and> exact_Branch (pr_Head pr)
     \<and> valid_utf8 (pr_URL pr) \<and> valid_utf8 (pr_HTMLURL pr) \<and> valid_utf8 (pr_CommentsURL pr)"

definition exact_Commit :: "Commit \<Rightarrow> bool" where
  "exact_Commit c \<longleftrightarrow>
     valid_utf8 (ci_SHA c) \<and> exact_User (ci_Author c) \<and> exact_User (ci_Committer c)
     \<and> valid_utf8 (ci_Message c) \<and> valid_utf8 (ci_URL c) \<and> exact_time (ci_Date c)"

definition exact_Comment :: "Comment \<Rightarrow> bool" where
  "exact_Comment c \<longleftrightarrow>
     valid_utf8 (cm_Body c) \<and> exact_User (cm_User c) \<and> exact_time (cm_CreatedAt c)
     \<and> exact_time (cm_UpdatedAt c) \<and> valid_utf8 (cm_URL c) \<and> valid_utf8 (cm_HTMLURL c)
     \<and> valid_utf8 (cm_Type c) \<and> valid_utf8 (cm_Path c) \<and> valid_utf8 (cm_CommitID c)
     \<and> valid_utf8 (cm_OriginalCommitID c) \<and> valid_utf8 (cm_DiffHunk c)"

definition exact_Review :: "Review \<Rightarrow> bool" where
  "exact_Review r \<longleftrightarrow>
     exact_User (rv_User r) \<and> valid_utf8 (rv_Body r) \<and> valid_utf8 (rv_State r)
     \<and> valid_utf8 (rv_HTMLURL r) \<and> exact_time (rv_SubmittedAt r) \<and> valid_utf8 (rv_CommitID r)"

definition exact_Metadata :: "Metadata \<Rightarrow> bool" where
  "exact_Metadata md \<longleftrightarrow>
     exact_time (md_LastUpdated md) \<and> valid_utf8 (md_Repository md) \<and> valid_utf8 (md_Owner md)
     \<and> list_all (\<lambda>kv. valid_utf8 (fst kv)) (md_AuthorStats md)"

section \<open>Sample data\<close>

definition sample_time :: GoTime where
  "sample_time = \<lparr>t_year = 2024, t_month = 1, t_day = 2, t_hour = 3, t_minute = 4,
     t_second = 5, t_nanosecond = 0, t_offset = 0, t_monotonic = None\<rparr>"

definition user_named :: "string \<Rightarrow> User" where
  "user_named login =
     \<lparr>u_Login = login, u_ID = 7, u_AvatarURL = [], u_HTMLURL = [], u_Type = ''User''\<rparr>"

definition sample_pr :: "int \<Rightarrow> PullRequest" where
  "sample_pr n =
     \<lparr>pr_Number = n, pr_Title = ''Fix parser'', pr_State = ''closed'', pr_Body = [],
      pr_CreatedAt = sample_time, pr_UpdatedAt = sample_time, pr_ClosedAt = None,
      pr_MergedAt = None, pr_User = user_named ''dave'',
      pr_Base = \<lparr>b_Label = ''main'', b_Ref = ''main'', b_SHA = ''a1''\<rparr>,
      pr_Head = \<lparr>b_Label = ''fix'', b_Ref = ''fix'', b_SHA = ''b2''\<rparr>,
      pr_URL = [], pr_HTMLURL = [], pr_CommentsURL = [], pr_ReviewComments = 0,
      pr_Comments = 0, pr_Commits = 1, pr_Additions = 1, pr_Deletions = 0,
      pr_ChangedFiles = 1\<rparr>"

text \<open>A comment by \<open>login\<close> with the given body, type and diff excerpt.\<close>

definition sample_comment :: "string \<Rightarrow> string \<Rightarrow> string \<Rightarrow> string \<Rightarrow> Comment" where
  "sample_comment login body ty hunk =
     \<lparr>cm_ID = 11, cm_Body = body, cm_User = user_named login,
      cm_CreatedAt = sample_time, cm_UpdatedAt = sample_time, cm_URL = [], cm_HTMLURL = [],
      cm_Type = ty, cm_Path = ''main.go'', cm_Position = None, cm_Line = None,
      cm_StartLine = None, cm_OriginalPosition = None, cm_OriginalStartLine = None,
      cm_CommitID = [], cm_OriginalCommitID = [], cm_DiffHunk = hunk,
      cm_InReplyToID = None\<rparr>"

definition sample_review :: "string \<Rightarrow> string \<Rightarrow> Review" where
  "sample_review login body =
     \<lparr>rv_ID = 21, rv_User = user_named login, rv_Body = body, rv_State = ''COMMENTED'',
      rv_HTMLURL = [], rv_SubmittedAt = sample_time, rv_CommitID = []\<rparr>"

definition sample_dir :: "int \<Rightarrow> Comment list \<Rightarrow> Review list \<Rightarrow> dir_entry" where
  "sample_dir n cs rs =
     Dir (itoa n) \<lparr>pr_json = Content (sample_pr n), commits_json = Content [],
                   comments_json = Content cs, reviews_json = Content rs\<rparr>"

definition sample_metadata :: Metadata where
  "sample_metadata =
     \<lparr>md_LastUpdated = sample_time, md_TotalPRs = 1, md_Repository = ''pr-analysis'',
      md_Owner = ''perbu'', md_AuthorStats = []\<rparr>"

definition store_of :: "dir_entry list \<Rightarrow> ProcessingStatus stored \<Rightarrow> store" where
  "store_of entries status =
     \<lparr>pulls = Some entries, metadata_json = Content sample_metadata, status_json = status,
      learnings = Map.empty\<rparr>"

definition ref_env :: env where
  "ref_env =
     \<lparr>generate = (\<lambda>k d. Candidates [Some [''{}'']]), now = ''2024-01-02T03:04:05Z'',
      save_learning_fails = (\<lambda>n. False), save_status_fails = (\<lambda>n. False)\<rparr>"

definition hunk_comment :: Comment where
  "hunk_comment = sample_comment ''alice'' ''please rename'' ''review'' ''@@ -1 +1 @@''"

text \<open>One downloaded PR, number 1, with a line-level review comment; no status file yet.\<close>

definition one_pr_store :: store where
  "one_pr_store = store_of [sample_dir 1 [hunk_comment] []] Absent"

text \<open>PRs 1, 2, 3, 5 and 8 and a status file whose cursor is 3.\<close>

definition resume_status :: ProcessingStatus where
  "resume_status =
     \<lparr>ps_TotalPRs = 5, ps_ProcessedPRs = 3, ps_LastPR = 3, ps_UpdatedAt = ''2024-01-01T00:00:00Z''\<rparr>"

definition resume_store :: store where
  "resume_store =
     store_of [sample_dir 1 [hunk_comment] [], sample_dir 2 [hunk_comment] [],
               sample_dir 3 [hunk_comment] [], sample_dir 5 [hunk_comment] [],
               sample_dir 8 [hunk_comment] []]
       (Content resume_status)"

text \<open>PR 4 has one issue comment (no diff excerpt); PR 6 has a line-level comment.\<close>

definition skip_store :: store where
  "skip_store =
     store_of [sample_dir 4 [sample_comment ''alice'' ''thanks'' ''issue'' []] [],
               sample_dir 6 [hunk_comment] []]
       Absent"

text \<open>
  PR 42 with two review comments, by alice and by bob, and one review by alice with the
  body ``looks good''.
\<close>

definition later_time :: GoTime where
  "later_time = sample_time\<lparr>t_second := 6\<rparr>"

definition alice_comment :: Comment where
  "alice_comment =
     (sample_comment ''alice'' ''please rename'' ''review'' ''@@ -1 +1 @@'')
       \<lparr>cm_UpdatedAt := later_time, cm_URL := ''https://api.example.test/comments/1'',
        cm_HTMLURL := ''https://example.test/pull/42#r1'', cm_Line := Some 12,
        cm_Position := Some 3\<rparr>"

definition alice_review :: Review where
  "alice_review =
     (sample_review ''alice'' ''looks good'')
       \<lparr>rv_HTMLURL := ''https://example.test/pull/42#v1'', rv_SubmittedAt := later_time\<rparr>"

definition dir42 :: dir_entry where
  "dir42 =
     sample_dir 42
       [alice_comment, sample_comment ''bob'' ''agreed'' ''review'' ''@@ -1 +1 @@'']
       [alice_review]"

definition store42 :: store where
  "store42 = store_of [dir42] Absent"

text \<open>PR 7 with two comments by alice made in the same second.\<close>

definition tie_entries :: "dir_entry list" where
  "tie_entries =
     [sample_dir 7 [sample_comment ''alice'' ''first'' ''issue'' [],
                    sample_comment ''alice'' ''second'' ''issue'' []] []]"

definition tie_store :: store where
  "tie_store = store_of tie_entries Absent"

text \<open>PR 9, whose comments file is missing while its reviews file holds a review by alice.\<close>

definition orphan_files :: pr_files where
  "orphan_files =
     \<lparr>pr_json = Content (sample_pr 9), commits_json = Content [], comments_json = Absent,
      reviews_json = Content [sample_review ''alice'' ''looks good'']\<rparr>"

definition orphan_reviews_store :: store where
  "orphan_reviews_store = store_of [Dir ''9'' orphan_files] Absent"

definition no_metadata_store :: store where
  "no_metadata_store = (store_of [dir42] Absent)\<lparr>metadata_json := Absent\<rparr>"

text \<open>A generation service that wraps a malformed object in prose.\<close>

definition chatty_env :: env where
  "chatty_env = ref_env\<lparr>generate := (\<lambda>k d. Candidates [Some [''Sure! {ouch} done'']])\<rparr>"

text \<open>A generation service whose answers have one candidate, without content.\<close>

definition hollow_env :: env where
  "hollow_env = ref_env\<lparr>generate := (\<lambda>k d. Candidates [None])\<rparr>"

definition hunk_data :: PRData where
  "hunk_data =
     \<lparr>pd_PR = sample_pr 1, pd_Commits = [], pd_Comments = [hunk_comment], pd_Reviews = []\<rparr>"






text \<open>
  A commit; a comment whose body is the single byte \<open>0xFF\<close>; the metadata with a
  timestamp that carries a reading of the monotonic clock, as \<open>time.Now()\<close> gives; a pull
  request created in the year 10000.
\<close>

definition sample_commit :: Commit where
  "sample_commit =
     \<lparr>ci_SHA = ''b2'', ci_Author = user_named ''dave'', ci_Committer = user_named ''dave'',
      ci_Message = ''Fix the parser'', ci_URL = ''https://example.test/commit/b2'',
      ci_Date = sample_time\<rparr>"

definition garbled_comment :: Comment where
  "garbled_comment = sample_comment ''alice'' [CHR 0xFF] ''issue'' []"

definition stamped_metadata :: Metadata where
  "stamped_metadata = sample_metadata\<lparr>md_LastUpdated := sample_time\<lparr>t_monotonic := Some 1\<rparr>\<rparr>"

definition far_pr :: PullRequest where
  "far_pr = (sample_pr 1)\<lparr>pr_CreatedAt := sample_time\<lparr>t_year := 10000\<rparr>\<rparr>"

text \<open>
  PR 11, whose comments file is not well formed while its reviews file holds a review by
  alice.
\<close>

definition garbled_files :: pr_files where
  "garbled_files =
     \<lparr>pr_json = Content (sample_pr 11), commits_json = Content [], comments_json = Malformed [],
      reviews_json = Content [sample_review ''alice'' ''ship it'']\<rparr>"

definition garbled_store :: store where
  "garbled_store = store_of [Dir ''11'' garbled_files] Absent"

text \<open>PRs 7 and 9, each with one comment by alice.\<close>

definition two_group_store :: store where
  "two_group_store =
     store_of [sample_dir 7 [sample_comment ''alice'' ''first'' ''issue'' []] [],
               sample_dir 9 [sample_comment ''alice'' ''second'' ''issue'' []] []] Absent"

definition first_row :: CommentResult where
  "first_row = comment_row (sample_pr 7) (sample_comment ''alice'' ''first'' ''issue'' [])"

definition second_row :: CommentResult where
  "second_row = comment_row (sample_pr 7) (sample_comment ''alice'' ''second'' ''issue'' [])"

text \<open>
  A repository with the closed PR 1 and the open PR 2. PR 1 has an issue comment by
  alice, review comments by alice and bob, a review by bob with a body and one by alice
  without; PR 2 has an issue comment by alice and a review by alice with a body.
\<close>

definition two_pr_client :: client where
  "two_pr_client =
     \<lparr>GetPullRequests = (\<lambda>state. if state = ''closed'' then Inr [sample_pr 1] else Inr [sample_pr 2]),
      GetPRDetails = (\<lambda>i n. Inr (sample_pr n)),
      GetPRCommits = (\<lambda>i n. Inr []),
      getIssueComments = (\<lambda>i n. Inr [sample_comment ''alice'' ''thanks'' ''issue'' []]),
      getReviewComments =
        (\<lambda>i n. if n = 1
                then Inr [hunk_comment, sample_comment ''bob'' ''agreed'' ''review'' ''@@ -1 +1 @@'']
                else Inr []),
      GetPRReviews =
        (\<lambda>i n. if n = 1 then Inr [sample_review ''bob'' ''lgtm'', sample_review ''alice'' []]
                else Inr [sample_review ''alice'' ''looks good'']),
      create_directories_fails = False,
      save_fails_at = (\<lambda>i n. None),
      save_metadata_fails = False,
      clock = sample_time\<rparr>"

definition empty_store :: store where
  "empty_store =
     \<lparr>pulls = None, metadata_json = Absent, status_json = Absent, learnings = Map.empty\<rparr>"

section \<open>Properties of the learning pass\<close>

lemma hasDiffHunk_loop_iff: "hasDiffHunk_loop cs \<longleftrightarrow> (\<exists>c \<in> set cs. cm_DiffHunk c \<noteq> [])"
  by (induction cs) auto

lemma pulls_SaveLearning: "SaveLearning e st l = Inr st' \<Longrightarrow> pulls st' = pulls st"
  by (auto simp: SaveLearning_def split: if_splits)

lemma pulls_SaveProcessingStatus: "SaveProcessingStatus e st x = Inr st' \<Longrightarrow> pulls st' = pulls st"
  by (auto simp: SaveProcessingStatus_def split: if_splits)

lemma loadPRData_cong: "pulls st = pulls st' \<Longrightarrow> loadPRData st n = loadPRData st' n"
  by (simp add: loadPRData_def pr_dir_def)

lemma pulls_process_pr: "pulls (rs_store (state_of (process_pr L e s n))) = pulls (rs_store s)"
  by (auto simp: process_pr_def Let_def split: sum.splits call.splits)
     (metis pulls_SaveLearning pulls_SaveProcessingStatus)+

lemma process_pr_events:
  assumes "ev \<in> set (rs_trace (state_of (process_pr L e s n)))"
  shows "ev \<in> set (rs_trace s) \<or> ev = LoadPR n
     \<or> (\<exists>d. loadPRData (rs_store s) n = Inr d \<and> reviewable d \<and>
          (ev = Generate n d \<or> (\<exists>l. ev = WriteLearning n l) \<or> (\<exists>x. ev = WriteStatus x)))"
  using assms
  by (auto simp: process_pr_def Let_def reviewable_def hasDiffHunk_def hasDiffHunk_loop_iff
           split: sum.splits if_splits call.splits)

lemma loop_events:
  assumes "ended (process_loop L e s ns) = Some s'" "ev \<in> set (rs_trace s')"
  shows "ev \<in> set (rs_trace s) \<or> (\<exists>n \<in> set ns. ev = LoadPR n
     \<or> (\<exists>d. loadPRData (rs_store s) n = Inr d \<and> reviewable d \<and>
          (ev = Generate n d \<or> (\<exists>l. ev = WriteLearning n l) \<or> (\<exists>x. ev = WriteStatus x))))"
  using assms
proof (induction ns arbitrary: s)
  case Nil then show ?case by simp
next
  case (Cons n ns)
  show ?case
  proof (cases "process_pr L e s n")
    case (Dies s1)
    with Cons.prems have "ev \<in> set (rs_trace (state_of (process_pr L e s n)))" by simp
    from process_pr_events[OF this] show ?thesis by auto
  next
    case (Goes_on s1)
    have eq: "\<And>m. loadPRData (rs_store s1) m = loadPRData (rs_store s) m"
      by (rule loadPRData_cong) (use pulls_process_pr[of L e s n] Goes_on in simp)
    from Cons.prems Goes_on have "ended (process_loop L e s1 ns) = Some s'" by simp
    from Cons.IH[OF this Cons.prems(2)] show ?thesis
      unfolding eq using process_pr_events[of ev L e s n] Goes_on by auto
  qed
qed

lemma run_shape:
  assumes "ended (ProcessAllPRs L e st) = Some s"
  shows "\<exists>status ns. ended (process_loop L e \<lparr>rs_status = status, rs_store = st, rs_trace = []\<rparr> ns) = Some s"
proof -
  have nil: "\<And>s0. ended (Panicked s0) = ended (process_loop L e s0 [])" by simp
  show ?thesis using assms
    by (auto simp del: ended.simps process_loop.simps
             simp: ProcessAllPRs_def Let_def nil ended.simps(1)
             split: sum.splits if_splits)
qed

lemma in_requests: "n \<in> set (requests tr) \<longleftrightarrow> (\<exists>d. Generate n d \<in> set tr)"
proof (induction tr)
  case Nil show ?case by (simp add: requests_def List.map_filter_simps)
next
  case (Cons ev tr)
  then show ?case by (cases ev) (auto simp: requests_def List.map_filter_simps)
qed

lemma in_learned: "n \<in> set (learned tr) \<longleftrightarrow> (\<exists>l. WriteLearning n l \<in> set tr)"
proof (induction tr)
  case Nil show ?case by (simp add: learned_def List.map_filter_simps)
next
  case (Cons ev tr)
  then show ?case by (cases ev) (auto simp: learned_def List.map_filter_simps)
qed









lemma content_less_candidate_panics:
  "generate e k d = Candidates (None # rest) \<Longrightarrow> ProcessPR L e k d = Panics"
  by (simp add: ProcessPR_def parse_response_def)





text \<open>
  C1. Running the learning pass twice in a row, with no PR added in between, should send
  nothing to the generation service the second time. On a store with the single PR 1,
  which has a line-level review comment, the first run returns after processing PR 1 and
  setting the cursor to 1; the second run finds no number above the cursor, keeps its
  start index 0, and so sends PR 1 to the generation service again.
\<close>

theorem second_run_repeats_request:
  "map_option (\<lambda>s. (ps_LastPR (rs_status s), requests (rs_trace s)))
     (returned (ProcessAllPRs ref_lib ref_env one_pr_store)) = Some (1, [1])
   \<and> map_option (\<lambda>s. (ps_LastPR (rs_status s), requests (rs_trace s)))
     (returned (second_run ref_lib ref_env one_pr_store)) = Some (1, [1])"
  by code_simp



text \<open>
  The other branch is a real one: when the answers of the generation service carry no
  content, the run on the same store dies at PR 5, before PR 8 is loaded.
\<close>

lemma resume_cut_short:
  "(case ProcessAllPRs ref_lib hollow_env resume_store of
      Panicked s \<Rightarrow> Some (visits (rs_trace s), requests (rs_trace s), learned (rs_trace s))
    | _ \<Rightarrow> None) = Some ([5], [5], [])"
  by code_simp

text \<open>
  C5. Skip policy: a stored PR that has neither comments nor reviews, or none of whose
  comments carries a diff excerpt, is never sent to the generation service by a run of
  the learning pass, and the run writes no learning for it, whether the run returns or
  dies on a later PR.
\<close>

theorem skip_policy:
  assumes run: "ProcessAllPRs L e st = Returned s \<or> ProcessAllPRs L e st = Panicked s"
    and load: "loadPRData st n = Inr prData"
    and skip: "(pd_Comments prData = [] \<and> pd_Reviews prData = [])
               \<or> (\<forall>c \<in> set (pd_Comments prData). cm_DiffHunk c = [])"
  shows "n \<notin> set (requests (rs_trace s)) \<and> n \<notin> set (learned (rs_trace s))"
proof -
  from run have "ended (ProcessAllPRs L e st) = Some s" by auto
  from run_shape[OF this] obtain status ns where
    s: "ended (process_loop L e \<lparr>rs_status = status, rs_store = st, rs_trace = []\<rparr> ns) = Some s" by blast
  have nr: "\<not> reviewable prData" using skip by (auto simp: reviewable_def)
  have "\<And>ev. ev \<in> set (rs_trace s) \<Longrightarrow> (\<forall>d. ev \<noteq> Generate n d) \<and> (\<forall>l. ev \<noteq> WriteLearning n l)"
  proof -
    fix ev assume "ev \<in> set (rs_trace s)"
    from loop_events[OF s this] load nr show "(\<forall>d. ev \<noteq> Generate n d) \<and> (\<forall>l. ev \<noteq> WriteLearning n l)"
      by auto
  qed
  then show ?thesis unfolding in_requests in_learned by blast
qed

theorem skip_policy_witness:
  "\<exists>s d. ProcessAllPRs ref_lib ref_env skip_store = Returned s \<and> loadPRData skip_store 4 = Inr d
     \<and> list_all (\<lambda>c. cm_DiffHunk c = []) (pd_Comments d)
     \<and> 4 \<notin> set (requests (rs_trace s)) \<and> 4 \<notin> set (learned (rs_trace s))
     \<and> requests (rs_trace s) = [6]"
proof -
  have "returned (ProcessAllPRs ref_lib ref_env skip_store) \<noteq> None" by code_simp
  then obtain s where s: "ProcessAllPRs ref_lib ref_env skip_store = Returned s"
    by (cases "ProcessAllPRs ref_lib ref_env skip_store") simp_all
  have "isl (loadPRData skip_store 4) = False" by code_simp
  then obtain d where d: "loadPRData skip_store 4 = Inr d"
    by (cases "loadPRData skip_store 4") simp_all
  have "list_all (\<lambda>c. cm_DiffHunk c = []) (pd_Comments (projr (loadPRData skip_store 4)))" by code_simp
  then have h: "list_all (\<lambda>c. cm_DiffHunk c = []) (pd_Comments d)" using d by simp
  have "map_option (\<lambda>s. requests (rs_trace s)) (returned (ProcessAllPRs ref_lib ref_env skip_store)) = Some [6]"
    by code_simp
  then have r: "requests (rs_trace s) = [6]" using s by simp
  from h have "(pd_Comments d = [] \<and> pd_Reviews d = []) \<or> (\<forall>c \<in> set (pd_Comments d). cm_DiffHunk c = [])"
    by (simp add: list_all_iff)
  from skip_policy[OF disjI1[OF s] d this] s d h r show ?thesis by blast
qed

lemma index_byte_first: "c \<notin> set pre \<Longrightarrow> index_byte c (pre @ c # rest) = Some (length pre)"
  by (induction pre) auto

lemma last_index_byte_none: "c \<notin> set xs \<Longrightarrow> last_index_byte c xs = None"
  by (induction xs) auto

lemma last_index_byte_last: "c \<notin> set post \<Longrightarrow> last_index_byte c (pre @ c # post) = Some (length pre)"
  by (induction pre) (auto simp: last_index_byte_none)

lemma slice_braces:
  "slice (pre @ CHR ''{'' # mid @ CHR ''}'' # post) (length pre) (Suc (length pre + Suc (length mid)))
     = CHR ''{'' # mid @ [CHR ''}'']"
  by (simp add: slice_def)

lemma json_span:
  assumes "CHR ''{'' \<notin> set pre" "CHR ''}'' \<notin> set post"
    and "text = pre @ CHR ''{'' # mid @ CHR ''}'' # post"
  shows "index_byte CHR ''{'' text = Some (length pre)"
    and "last_index_byte CHR ''}'' text = Some (length pre + Suc (length mid))"
    and "slice text (length pre) (length pre + Suc (length mid) + 1) = CHR ''{'' # mid @ [CHR ''}'']"
proof -
  show "index_byte CHR ''{'' text = Some (length pre)" using assms by (simp add: index_byte_first)
  have "text = (pre @ CHR ''{'' # mid) @ CHR ''}'' # post" using assms(3) by simp
  then have "last_index_byte CHR ''}'' text = Some (length (pre @ CHR ''{'' # mid))"
    using assms(2) last_index_byte_last by metis
  then show "last_index_byte CHR ''}'' text = Some (length pre + Suc (length mid))" by simp
  show "slice text (length pre) (length pre + Suc (length mid) + 1) = CHR ''{'' # mid @ [CHR ''}'']"
    using assms(3) slice_braces[of pre mid post] by simp
qed

text \<open>
  C8. Malformed generation output degrades, never aborts: whatever text the generation
  service returns as the first part of its first candidate, \<open>ProcessPR\<close> returns a
  learning for the PR and no error; and when the text from its first \<open>{\<close> to its last
  \<open>}\<close> does not parse, that learning has empty learnings and topics.
\<close>

theorem malformed_output_degrades:
  assumes gen: "generate e k prData = Candidates (Some (text # parts) # rest)"
  shows "\<exists>l. ProcessPR L e k prData = Gives (Inr l)
           \<and> l_PRNumber l = pr_Number (pd_PR prData)
           \<and> (\<forall>pre mid post.
                 text = pre @ CHR ''{'' # mid @ CHR ''}'' # post
                   \<and> CHR ''{'' \<notin> set pre \<and> CHR ''}'' \<notin> set post
                   \<and> unmarshal_result L (CHR ''{'' # mid @ [CHR ''}'']) = None
                 \<longrightarrow> l = mk_learning e prData [] [])"
proof -
  define l where "l = parse_text L e prData text"
  have run: "ProcessPR L e k prData = Gives (Inr l)"
    using gen by (simp add: ProcessPR_def parse_response_def l_def)
  have num: "l_PRNumber l = pr_Number (pd_PR prData)"
    by (simp add: l_def parse_text_def mk_learning_def split: option.splits prod.splits)
  have deg: "l = mk_learning e prData [] []"
    if "text = pre @ CHR ''{'' # mid @ CHR ''}'' # post" "CHR ''{'' \<notin> set pre" "CHR ''}'' \<notin> set post"
       "unmarshal_result L (CHR ''{'' # mid @ [CHR ''}'']) = None" for pre mid post
    using json_span[OF that(2,3,1)] that(4) by (simp add: l_def parse_text_def)
  show ?thesis using run num deg by blast
qed

theorem malformed_output_degrades_witness:
  "generate chatty_env 0 hunk_data = Candidates [Some [''Sure! {ouch} done'']]
   \<and> unmarshal_result ref_lib ''{ouch}'' = None
   \<and> ProcessPR ref_lib chatty_env 0 hunk_data = Gives (Inr (mk_learning chatty_env hunk_data [] []))"
proof -
  have g: "generate chatty_env 0 hunk_data = Candidates (Some (''Sure! {ouch} done'' # []) # [])"
    by (simp add: chatty_env_def)
  have u: "unmarshal_result ref_lib (CHR ''{'' # ''ouch'' @ [CHR ''}'']) = None"
    by (simp add: ref_lib_def unmarshal_empty_object_def)
  from malformed_output_degrades[OF g, of ref_lib] obtain l where
    l: "ProcessPR ref_lib chatty_env 0 hunk_data = Gives (Inr l)"
    and d: "\<And>pre mid post. ''Sure! {ouch} done'' = pre @ CHR ''{'' # mid @ CHR ''}'' # post
                   \<and> CHR ''{'' \<notin> set pre \<and> CHR ''}'' \<notin> set post
                   \<and> unmarshal_result ref_lib (CHR ''{'' # mid @ [CHR ''}'']) = None
                 \<Longrightarrow> l = mk_learning chatty_env hunk_data [] []" by blast
  have "l = mk_learning chatty_env hunk_data [] []"
    by (rule d[of "''Sure! ''" "''ouch''" "'' done''"]) (use u in simp)
  then show ?thesis using l g u by simp
qed

section \<open>Properties of the query\<close>

lemma row_le_iff: "row_le a b \<longleftrightarrow> \<not> row_less b a"
  by (auto simp: row_le_def row_less_def)

lemma row_le_trans: "row_le a b \<Longrightarrow> row_le b c \<Longrightarrow> row_le a c"
  by (auto simp: row_le_def)

lemma row_less_le: "row_less a b \<Longrightarrow> row_le a b"
  by (auto simp: row_le_def row_less_def split: if_splits)

lemma set_insert_after: "set (insert_after lt x ys) = insert x (set ys)"
  by (induction ys) auto

lemma mset_insert_after: "mset (insert_after lt x ys) = add_mset x (mset ys)"
  by (induction ys) auto

lemma sorted_insert_after:
  "sorted_wrt row_le ys \<Longrightarrow> sorted_wrt row_le (insert_after row_less x ys)"
proof (induction ys)
  case Nil show ?case by simp
next
  case (Cons y ys)
  show ?case
  proof (cases "row_less x y")
    case True
    then have "row_le x y" by (rule row_less_le)
    moreover have "\<forall>z \<in> set ys. row_le x z" using Cons.prems \<open>row_le x y\<close> row_le_trans by auto
    ultimately show ?thesis using True Cons.prems by simp
  next
    case False
    then have "row_le y x" by (simp add: row_le_iff)
    then show ?thesis using False Cons by (auto simp: set_insert_after)
  qed
qed

lemma mset_insertion_sort_aux:
  "mset (foldl (\<lambda>acc x. insert_after lt x acc) acc xs) = mset acc + mset xs"
  by (induction xs arbitrary: acc) (simp_all add: mset_insert_after)

lemma sorted_insertion_sort_aux:
  "sorted_wrt row_le acc \<Longrightarrow> sorted_wrt row_le (foldl (\<lambda>acc x. insert_after row_less x acc) acc xs)"
  by (induction xs arbitrary: acc) (simp_all add: sorted_insert_after)

lemma not_row_less_eq: "(\<lambda>a b. \<not> row_less b a) = row_le"
  by (intro ext) (simp add: row_le_iff)

lemma ref_qlib_contract: "sort_contract ref_qlib"
  unfolding sort_contract_def not_row_less_eq
  by (simp add: ref_qlib_def insertion_sort_def mset_insertion_sort_aux sorted_insertion_sort_aux)


lemma backwards_qlib_ranges: "range_contract backwards_qlib"
  by (simp add: range_contract_def backwards_qlib_def ref_qlib_def)

lemma sort_contract_mset: "sort_contract Q \<Longrightarrow> mset (sort_slice Q row_less xs) = mset xs"
  by (simp add: sort_contract_def)


text \<open>What the loop over the directory entries collects.\<close>

lemma concat_map_filter: "concat (map (\<lambda>x. if P x then [f x] else []) xs) = map f (filter P xs)"
  by (induction xs) auto

lemma filter_comments_rows:
  "mset (filter_comments authors pr cs) = specified_comment_rows (set authors) pr cs"
  by (simp add: filter_comments_def specified_comment_rows_def comment_row_def[abs_def]
        concat_map_filter)

lemma filter_reviews_rows:
  "mset (filter_reviews authors pr rs) = specified_review_rows (set authors) pr rs"
  by (simp add: filter_reviews_def specified_review_rows_def review_row_def[abs_def]
        concat_map_filter)

lemma no_review_rows: "specified_review_rows A pr [] = {#}"
  by (simp add: specified_review_rows_def)

lemma visit_entry_rows:
  "mset (fst (visit_entry authors en)) = amended_entry_rows (set authors) en"
proof (cases en)
  case (PlainFile name)
  then show ?thesis by simp
next
  case (Dir name fs)
  show ?thesis
    unfolding Dir
    by (cases "pr_json fs"; cases "comments_json fs"; cases "reviews_json fs")
       (simp_all add: loadPR_def loadComments_def loadReviews_def stored_items_def
          filter_comments_rows filter_reviews_rows no_review_rows)
qed

lemma collect_rows:
  "mset (collect_results authors entries) = amended_rows (set authors) entries"
  by (induction entries) (simp_all add: amended_rows_def visit_entry_rows del: visit_entry.simps)







text \<open>Evaluating the query on the sample data.\<close>

lemma nat_digits_numeral [simp]:
  "nat_digits (numeral k) =
     (if numeral k < (10::nat) then [digit_char (numeral k)]
      else nat_digits (numeral k div 10) @ [digit_char (numeral k mod 10)])"
  by (simp add: nat_digits.simps[of "numeral k"])

lemma nat_digits_small [simp]:
  "nat_digits 0 = [digit_char 0]" "nat_digits (Suc 0) = [digit_char (Suc 0)]"
  by (simp_all add: nat_digits.simps[of 0] nat_digits.simps[of "Suc 0"])

lemma format_sample_time [simp]: "format_time sample_time = ''2024-01-02 03:04:05''"
  by (simp add: format_time_def sample_time_def format_year_def pad_def digit_char_def)

lemmas sample_defs =
  first_row_def second_row_def comment_row_def review_row_def sample_comment_def
  sample_review_def sample_pr_def user_named_def sample_dir_def store_of_def tie_store_def
  tie_entries_def dir42_def store42_def orphan_files_def orphan_reviews_store_def
  garbled_files_def garbled_store_def alice_comment_def alice_review_def later_time_def

lemmas query_defs =
  FilterByAuthors_def loadMetadata_def Let_def render_def parse_authors_def ref_qlib_def
  ascii_trim_def is_space_def loadPR_def loadComments_def loadReviews_def
  filter_comments_def filter_reviews_def insertion_sort_def row_less_def

lemma collect_results_append:
  "collect_results authors (xs @ ys) = collect_results authors xs @ collect_results authors ys"
  by (induction xs) simp_all

lemma visit_entry_no_comments:
  assumes "\<forall>cs. comments_json fs \<noteq> Content cs"
  shows "fst (visit_entry authors (Dir name fs)) = []"
    and "(name, ReviewsJson) \<notin> set (snd (visit_entry authors (Dir name fs)))"
  using assms
  by (cases "comments_json fs"; simp add: loadComments_def split: sum.splits)+

text \<open>
  C3, as amended. Query filter exactness: when the metadata file loads and \<open>data/pulls\<close>
  can be listed, the rows the query prints are, as a multiset, exactly these: for every PR
  directory whose \<open>pr.json\<close> and \<open>comments.json\<close> load, the stored comments whose author
  is requested and, when \<open>reviews.json\<close> loads as well, the stored reviews whose author
  is requested and whose body is not empty; each row carries the PR number and title, the
  author, the type tag, the body, the formatted timestamp, the page URL and, for a
  comment, path and line. For PR 42 with review comments by alice and bob and a review by
  alice, asking for alice gives the 2 rows of alice and asking for carol gives none.
\<close>

theorem filter_exactness:
  assumes "sort_contract Q"
    and "metadata_json st = Content md"
    and "pulls st = Some entries"
  shows "\<exists>rows. FilterByAuthors Q st authorsStr outputFormat
                   = Inr (render Q outputFormat rows md (parse_authors Q authorsStr))
           \<and> mset rows = amended_rows (set (parse_authors Q authorsStr)) entries"
proof (intro exI conjI)
  show "FilterByAuthors Q st authorsStr outputFormat
          = Inr (render Q outputFormat
                  (sort_slice Q row_less (collect_results (parse_authors Q authorsStr) entries))
                  md (parse_authors Q authorsStr))"
    using assms(2,3) by (simp add: FilterByAuthors_def loadMetadata_def Let_def)
  show "mset (sort_slice Q row_less (collect_results (parse_authors Q authorsStr) entries))
          = amended_rows (set (parse_authors Q authorsStr)) entries"
    using assms(1) by (simp add: sort_contract_mset collect_rows)
qed

theorem filter_exactness_witness:
  "sort_contract ref_qlib
   \<and> metadata_json store42 = Content sample_metadata
   \<and> pulls store42 = Some [dir42]
   \<and> FilterByAuthors ref_qlib store42 ''alice'' ''json''
       = Inr (JSONOutput
           [\<lparr>cr_PRNumber = 42, cr_PRTitle = ''Fix parser'', cr_Author = ''alice'',
             cr_CommentType = ''review'', cr_Body = ''please rename'',
             cr_CreatedAt = ''2024-01-02 03:04:05'', cr_URL = ''https://example.test/pull/42#r1'',
             cr_Path = ''main.go'', cr_Line = Some 12\<rparr>,
            \<lparr>cr_PRNumber = 42, cr_PRTitle = ''Fix parser'', cr_Author = ''alice'',
             cr_CommentType = ''review'', cr_Body = ''looks good'',
             cr_CreatedAt = ''2024-01-02 03:04:06'', cr_URL = ''https://example.test/pull/42#v1'',
             cr_Path = [], cr_Line = None\<rparr>])
   \<and> amended_rows {''alice''} [dir42]
       = {#\<lparr>cr_PRNumber = 42, cr_PRTitle = ''Fix parser'', cr_Author = ''alice'',
             cr_CommentType = ''review'', cr_Body = ''please rename'',
             cr_CreatedAt = ''2024-01-02 03:04:05'', cr_URL = ''https://example.test/pull/42#r1'',
             cr_Path = ''main.go'', cr_Line = Some 12\<rparr>,
            \<lparr>cr_PRNumber = 42, cr_PRTitle = ''Fix parser'', cr_Author = ''alice'',
             cr_CommentType = ''review'', cr_Body = ''looks good'',
             cr_CreatedAt = ''2024-01-02 03:04:06'', cr_URL = ''https://example.test/pull/42#v1'',
             cr_Path = [], cr_Line = None\<rparr>#}
   \<and> FilterByAuthors ref_qlib store42 ''carol'' ''json'' = Inr (JSONOutput [])
   \<and> amended_rows {''carol''} [dir42] = {#}"
proof -
  have m: "metadata_json store42 = Content sample_metadata" by (simp add: store42_def store_of_def)
  have p: "pulls store42 = Some [dir42]" by (simp add: store42_def store_of_def)
  have pa: "parse_authors ref_qlib ''alice'' = [''alice'']" by (simp add: query_defs)
  have pc: "parse_authors ref_qlib ''carol'' = [''carol'']" by (simp add: query_defs)
  have t: "format_time later_time = ''2024-01-02 03:04:06''"
    by (simp add: format_time_def later_time_def sample_time_def format_year_def pad_def digit_char_def)
  have ra: "FilterByAuthors ref_qlib store42 ''alice'' ''json''
       = Inr (JSONOutput
           [\<lparr>cr_PRNumber = 42, cr_PRTitle = ''Fix parser'', cr_Author = ''alice'',
             cr_CommentType = ''review'', cr_Body = ''please rename'',
             cr_CreatedAt = ''2024-01-02 03:04:05'', cr_URL = ''https://example.test/pull/42#r1'',
             cr_Path = ''main.go'', cr_Line = Some 12\<rparr>,
            \<lparr>cr_PRNumber = 42, cr_PRTitle = ''Fix parser'', cr_Author = ''alice'',
             cr_CommentType = ''review'', cr_Body = ''looks good'',
             cr_CreatedAt = ''2024-01-02 03:04:06'', cr_URL = ''https://example.test/pull/42#v1'',
             cr_Path = [], cr_Line = None\<rparr>])"
    using t by (simp add: query_defs sample_defs)
  have rc: "FilterByAuthors ref_qlib store42 ''carol'' ''json'' = Inr (JSONOutput [])"
    by (simp add: query_defs sample_defs)
  from filter_exactness[OF ref_qlib_contract m p, of "''alice''" "''json''"] ra
  have ea: "amended_rows {''alice''} [dir42]
       = {#\<lparr>cr_PRNumber = 42, cr_PRTitle = ''Fix parser'', cr_Author = ''alice'',
             cr_CommentType = ''review'', cr_Body = ''please rename'',
             cr_CreatedAt = ''2024-01-02 03:04:05'', cr_URL = ''https://example.test/pull/42#r1'',
             cr_Path = ''main.go'', cr_Line = Some 12\<rparr>,
            \<lparr>cr_PRNumber = 42, cr_PRTitle = ''Fix parser'', cr_Author = ''alice'',
             cr_CommentType = ''review'', cr_Body = ''looks good'',
             cr_CreatedAt = ''2024-01-02 03:04:06'', cr_URL = ''https://example.test/pull/42#v1'',
             cr_Path = [], cr_Line = None\<rparr>#}"
    by (auto simp: render_def pa)
  from filter_exactness[OF ref_qlib_contract m p, of "''carol''" "''json''"] rc
  have ec: "amended_rows {''carol''} [dir42] = {#}"
    by (auto simp: render_def pc)
  show ?thesis using ref_qlib_contract m p ra ea rc ec by blast
qed

text \<open>
  C3 as stated holds for every stored collection of comments and reviews. It fails on a
  PR directory whose \<open>comments.json\<close> is not well formed: the review by alice stored in
  its \<open>reviews.json\<close>, with the body ``ship it'', is a row the claim asks for, and the
  query returns no row.
\<close>

theorem stored_review_omitted:
  "pulls garbled_store = Some [Dir ''11'' garbled_files]
   \<and> metadata_json garbled_store = Content sample_metadata
   \<and> pr_json garbled_files = Content (sample_pr 11)
   \<and> comments_json garbled_files = Malformed []
   \<and> reviews_json garbled_files = Content [sample_review ''alice'' ''ship it'']
   \<and> claimed_rows {''alice''} [Dir ''11'' garbled_files]
       = {#\<lparr>cr_PRNumber = 11, cr_PRTitle = ''Fix parser'', cr_Author = ''alice'',
             cr_CommentType = ''review'', cr_Body = ''ship it'',
             cr_CreatedAt = ''2024-01-02 03:04:05'', cr_URL = [], cr_Path = [],
             cr_Line = None\<rparr>#}
   \<and> FilterByAuthors ref_qlib garbled_store ''alice'' ''json'' = Inr (JSONOutput [])
   \<and> FilterByAuthors ref_qlib garbled_store ''alice'' ''csv'' = Inr (CSVOutput [csv_header])"
proof -
  have 1: "claimed_rows {''alice''} [Dir ''11'' garbled_files]
       = {#\<lparr>cr_PRNumber = 11, cr_PRTitle = ''Fix parser'', cr_Author = ''alice'',
             cr_CommentType = ''review'', cr_Body = ''ship it'',
             cr_CreatedAt = ''2024-01-02 03:04:05'', cr_URL = [], cr_Path = [],
             cr_Line = None\<rparr>#}"
    by (simp add: claimed_rows_def stored_items_def specified_comment_rows_def
          specified_review_rows_def sample_defs)
  have 2: "FilterByAuthors ref_qlib garbled_store ''alice'' ''json'' = Inr (JSONOutput [])"
    by (simp add: query_defs sample_defs)
  have 3: "FilterByAuthors ref_qlib garbled_store ''alice'' ''csv'' = Inr (CSVOutput [csv_header])"
    by (simp add: query_defs sample_defs formatCSV_def)
  show ?thesis using 1 2 3 by (simp add: garbled_store_def garbled_files_def store_of_def)
qed



text \<open>
  The groups of the plain-text report out of the order of the PR numbers: with a runtime
  that ranges over the map of groups from the last key put to the first, the group of
  PR 9 is printed before the group of PR 7.
\<close>

lemma plain_text_groups_in_map_order:
  "FilterByAuthors backwards_qlib two_group_store ''alice'' ''text''
     = Inr (StdoutOutput
         (stdout_head backwards_qlib sample_metadata [''alice''] 2 2
          @ print_group 9 [comment_row (sample_pr 9) (sample_comment ''alice'' ''second'' ''issue'' [])]
          @ print_group 7 [comment_row (sample_pr 7) (sample_comment ''alice'' ''first'' ''issue'' [])]))"
proof -
  have c: "collect_results [''alice''] (the (pulls two_group_store))
             = [comment_row (sample_pr 7) (sample_comment ''alice'' ''first'' ''issue'' []),
                comment_row (sample_pr 9) (sample_comment ''alice'' ''second'' ''issue'' [])]"
    by (simp add: two_group_store_def store_of_def sample_dir_def loadPR_def loadComments_def
          loadReviews_def filter_comments_def filter_reviews_def sample_comment_def user_named_def)
  have n: "cr_PRNumber (comment_row (sample_pr k) cm) = k" for k cm
    by (simp add: comment_row_def sample_pr_def)
  have l: "row_less (comment_row (sample_pr 9) cm) (comment_row (sample_pr 7) cm') = False" for cm cm'
    by (simp add: row_less_def n)
  have s: "insertion_sort row_less
             [comment_row (sample_pr 7) (sample_comment ''alice'' ''first'' ''issue'' []),
              comment_row (sample_pr 9) (sample_comment ''alice'' ''second'' ''issue'' [])]
           = [comment_row (sample_pr 7) (sample_comment ''alice'' ''first'' ''issue'' []),
              comment_row (sample_pr 9) (sample_comment ''alice'' ''second'' ''issue'' [])]"
    by (simp add: insertion_sort_def l)
  have p: "parse_authors backwards_qlib ''alice'' = [''alice'']"
    by (simp add: parse_authors_def backwards_qlib_def ref_qlib_def ascii_trim_def is_space_def)
  have m: "metadata_json two_group_store = Content sample_metadata"
    "pulls two_group_store \<noteq> None"
    by (simp_all add: two_group_store_def store_of_def)
  have q: "sort_slice backwards_qlib = insertion_sort" "range_groups backwards_qlib = rev"
    by (simp_all add: backwards_qlib_def ref_qlib_def)
  show ?thesis
    using m c
    by (auto simp: FilterByAuthors_def loadMetadata_def Let_def p q s render_def formatStdout_def
          group_results_def add_to_group_def n numeral_2_eq_2)
qed


text \<open>
  C9. When the comments file of a PR directory does not load, the directory contributes
  nothing: the query answers as if the directory were not there, whatever its reviews
  file holds, and the reviews file is not opened.
\<close>

theorem comments_failure_skips_pr:
  assumes "\<forall>cs. comments_json fs \<noteq> Content cs"
    and "pulls st = Some (before @ Dir name fs # after)"
  shows "FilterByAuthors Q st authorsStr outputFormat
           = FilterByAuthors Q (st\<lparr>pulls := Some (before @ after)\<rparr>) authorsStr outputFormat
       \<and> (name, ReviewsJson) \<notin> set (snd (visit_entry (parse_authors Q authorsStr) (Dir name fs)))"
proof -
  have c: "collect_results authors (before @ Dir name fs # after) = collect_results authors (before @ after)"
    for authors
    using visit_entry_no_comments(1)[OF assms(1)]
    by (simp add: collect_results_append del: visit_entry.simps)
  have "FilterByAuthors Q st authorsStr outputFormat
           = FilterByAuthors Q (st\<lparr>pulls := Some (before @ after)\<rparr>) authorsStr outputFormat"
    by (simp add: FilterByAuthors_def loadMetadata_def Let_def c assms(2) split: sum.splits)
  then show ?thesis using visit_entry_no_comments(2)[OF assms(1)] by blast
qed

theorem comments_failure_skips_pr_witness:
  "comments_json orphan_files = Absent
   \<and> reviews_json orphan_files = Content [sample_review ''alice'' ''looks good'']
   \<and> pulls orphan_reviews_store = Some ([] @ Dir ''9'' orphan_files # [])
   \<and> FilterByAuthors ref_qlib orphan_reviews_store ''alice'' ''json'' = Inr (JSONOutput [])"
proof -
  have a: "comments_json orphan_files = Absent" by (simp add: orphan_files_def)
  then have a': "\<forall>cs. comments_json orphan_files \<noteq> Content cs" by simp
  have r: "reviews_json orphan_files = Content [sample_review ''alice'' ''looks good'']"
    by (simp add: orphan_files_def)
  have b: "pulls orphan_reviews_store = Some ([] @ Dir ''9'' orphan_files # [])"
    by (simp add: orphan_reviews_store_def store_of_def)
  have c: "FilterByAuthors ref_qlib (orphan_reviews_store\<lparr>pulls := Some ([] @ [])\<rparr>) ''alice'' ''json''
          = Inr (JSONOutput [])"
    by (simp add: query_defs sample_defs)
  from comments_failure_skips_pr[OF a' b, of ref_qlib "''alice''" "''json''"] a r b c show ?thesis
    by simp
qed

text \<open>
  C10. Without a readable, well-formed metadata file \<open>FilterByAuthors\<close> returns an
  error, whatever the output format, the json and csv formats included.
\<close>

theorem metadata_required:
  assumes "\<forall>md. metadata_json st \<noteq> Content md"
  shows "FilterByAuthors Q st authorsStr outputFormat = Inl MetadataLoadFailed"
  using assms
  by (cases "metadata_json st") (simp_all add: FilterByAuthors_def loadMetadata_def Let_def)

theorem metadata_required_witness:
  "metadata_json no_metadata_store = Absent
   \<and> FilterByAuthors ref_qlib no_metadata_store ''alice'' ''json'' = Inl MetadataLoadFailed
   \<and> FilterByAuthors ref_qlib no_metadata_store ''alice'' ''csv'' = Inl MetadataLoadFailed"
proof -
  have a: "metadata_json no_metadata_store = Absent" by (simp add: no_metadata_store_def store_of_def)
  then have "\<forall>md. metadata_json no_metadata_store \<noteq> Content md" by simp
  from metadata_required[OF this] a show ?thesis by simp
qed

section \<open>Properties of the download\<close>

lemma stat_of_incr: "stat_of (incr m k) a = stat_of m a + (if a = k then 1 else 0)"
  by (simp add: incr_def stat_of_def update_conv')

lemma stat_count_comments:
  "stat_of (count_comments m cs) a
     = stat_of m a + int (length (filter (\<lambda>cm. u_Login (cm_User cm) = a) cs))"
  unfolding count_comments_def
  by (induction cs arbitrary: m) (simp_all add: stat_of_incr)

lemma stat_count_reviews:
  "stat_of (count_reviews m rs) a
     = stat_of m a + int (length (filter (\<lambda>rv. u_Login (rv_User rv) = a \<and> rv_Body rv \<noteq> []) rs))"
  unfolding count_reviews_def
  by (induction rs arbitrary: m) (simp_all add: stat_of_incr)

lemma stat_updateAuthorStats:
  "stat_of (md_AuthorStats (updateAuthorStats md data)) a = stat_of (md_AuthorStats md) a + authored a data"
  by (simp add: updateAuthorStats_def authored_def stat_count_comments stat_count_reviews)

lemma savePRData_ok: "fst (savePRData c i n data st) = None \<longleftrightarrow> save_fails_at c i n = None"
proof (cases "save_fails_at c i n")
  case None
  then show ?thesis by (simp add: savePRData_def Let_def)
next
  case (Some step)
  then show ?thesis by (cases step) (simp_all add: savePRData_def Let_def)
qed

lemma stat_download_pr:
  "stat_of (md_AuthorStats (d_metadata (download_pr c d ipr))) a
     = stat_of (md_AuthorStats (d_metadata d)) a
       + (case downloaded_one c ipr of None \<Rightarrow> 0 | Some data \<Rightarrow> authored a data)"
proof (cases ipr)
  case (Pair i pr)
  show ?thesis
  proof (cases "downloadPRData c i (pr_Number pr)")
    case (Inl err)
    then show ?thesis using Pair by (simp add: download_pr_def downloaded_one_def)
  next
    case (Inr data)
    obtain r st where sv: "savePRData c i (pr_Number pr) data (d_store d) = (r, st)" by fastforce
    then have "r = None \<longleftrightarrow> save_fails_at c i (pr_Number pr) = None"
      using savePRData_ok[of c i "pr_Number pr" data "d_store d"] by simp
    then show ?thesis using Pair Inr sv
      by (cases r) (auto simp: download_pr_def downloaded_one_def stat_updateAuthorStats)
  qed
qed

lemma stat_download_loop:
  "stat_of (md_AuthorStats (d_metadata (foldl (download_pr c) d iprs))) a
     = stat_of (md_AuthorStats (d_metadata d)) a
       + (\<Sum>data\<leftarrow>List.map_filter (downloaded_one c) iprs. authored a data)"
proof (induction iprs arbitrary: d)
  case Nil show ?case by (simp add: List.map_filter_simps)
next
  case (Cons ipr iprs)
  show ?case
    by (cases "downloaded_one c ipr") (simp_all add: Cons.IH stat_download_pr List.map_filter_simps)
qed

lemma load_metadata_store: "d_store (load_metadata d) = d_store d"
  by (simp add: load_metadata_def split: stored.splits)

lemma load_metadata_stats:
  "metadata_json (d_store d') = metadata_json (d_store d) \<Longrightarrow> d_metadata d' = d_metadata d
     \<Longrightarrow> d_metadata (load_metadata d') = d_metadata (load_metadata d)"
  by (simp add: load_metadata_def split: stored.splits)

lemma createDirectories_metadata:
  "createDirectories c st = Inr st' \<Longrightarrow> metadata_json st' = metadata_json st"
  by (auto simp: createDirectories_def split: if_splits option.splits)

text \<open>
  C6. Author statistics: when \<open>DownloadAll\<close> completes, having started without author
  statistics, the count of every author in the metadata (as kept and as saved) is the sum,
  over the PRs downloaded and saved successfully, of the comments by that author plus the
  reviews by that author that have a body.
\<close>

theorem author_stats_sum:
  assumes run: "DownloadAll c d = Inr d'"
    and fresh: "md_AuthorStats (d_metadata (load_metadata d)) = []"
    and closed: "GetPullRequests c ''closed'' = Inr closedPRs"
    and opened: "GetPullRequests c ''open'' = Inr openPRs"
  shows "stat_of (md_AuthorStats (d_metadata d')) a
           = (\<Sum>data\<leftarrow>downloaded c (closedPRs @ openPRs). authored a data)
       \<and> metadata_json (d_store d') = Content (d_metadata d')"
proof -
  from run obtain st where st: "createDirectories c (d_store d) = Inr st"
    by (auto simp: DownloadAll_def split: sum.splits)
  define d1 where "d1 = load_metadata (d\<lparr>d_store := st\<rparr>)"
  define d2 where "d2 = d1\<lparr>d_metadata := (d_metadata d1)\<lparr>md_TotalPRs := int (length (closedPRs @ openPRs))\<rparr>\<rparr>"
  define d3 where "d3 = foldl (download_pr c) d2 (enumerate 0 (closedPRs @ openPRs))"
  have d': "d' = d3\<lparr>d_metadata := (d_metadata d3)\<lparr>md_LastUpdated := clock c\<rparr>,
                    d_store := (d_store d3)\<lparr>metadata_json := Content ((d_metadata d3)\<lparr>md_LastUpdated := clock c\<rparr>)\<rparr>\<rparr>"
    using run st closed opened
    by (auto simp: DownloadAll_def Let_def d1_def d2_def d3_def split: if_splits)
  have "d_metadata d1 = d_metadata (load_metadata d)"
    unfolding d1_def using createDirectories_metadata[OF st] by (intro load_metadata_stats) simp_all
  then have "md_AuthorStats (d_metadata d2) = []" using fresh by (simp add: d2_def)
  then have "stat_of (md_AuthorStats (d_metadata d2)) a = 0" by (simp add: stat_of_def)
  then have "stat_of (md_AuthorStats (d_metadata d3)) a
      = (\<Sum>data\<leftarrow>downloaded c (closedPRs @ openPRs). authored a data)"
    unfolding d3_def downloaded_def by (simp add: stat_download_loop)
  then show ?thesis by (simp add: d')
qed
theorem author_stats_sum_witness:
  "md_AuthorStats (d_metadata (load_metadata (New ''perbu'' ''pr-analysis'' empty_store))) = []
   \<and> GetPullRequests two_pr_client ''closed'' = Inr [sample_pr 1]
   \<and> GetPullRequests two_pr_client ''open'' = Inr [sample_pr 2]
   \<and> map_sum id (\<lambda>d. map (stat_of (md_AuthorStats (d_metadata d))) [''alice'', ''bob'', ''carol''])
        (DownloadAll two_pr_client (New ''perbu'' ''pr-analysis'' empty_store)) = Inr [4, 2, 0]"
proof -
  define d0 where "d0 = New ''perbu'' ''pr-analysis'' empty_store"
  have f: "md_AuthorStats (d_metadata (load_metadata d0)) = []"
    by (simp add: d0_def load_metadata_def New_def empty_store_def)
  have c: "GetPullRequests two_pr_client ''closed'' = Inr [sample_pr 1]"
    by (simp add: two_pr_client_def)
  have o: "GetPullRequests two_pr_client ''open'' = Inr [sample_pr 2]"
    by (simp add: two_pr_client_def)
  have "isl (DownloadAll two_pr_client (New ''perbu'' ''pr-analysis'' empty_store)) = False"
    by code_simp
  then obtain d' where run: "DownloadAll two_pr_client d0 = Inr d'"
    unfolding d0_def
    by (cases "DownloadAll two_pr_client (New ''perbu'' ''pr-analysis'' empty_store)") simp_all
  have sa: "(\<Sum>data\<leftarrow>downloaded two_pr_client ([sample_pr 1] @ [sample_pr 2]). authored ''alice'' data) = 4"
    by code_simp
  have sb: "(\<Sum>data\<leftarrow>downloaded two_pr_client ([sample_pr 1] @ [sample_pr 2]). authored ''bob'' data) = 2"
    by code_simp
  have sc: "(\<Sum>data\<leftarrow>downloaded two_pr_client ([sample_pr 1] @ [sample_pr 2]). authored ''carol'' data) = 0"
    by code_simp
  from author_stats_sum[OF run f c o, of "''alice''"] author_stats_sum[OF run f c o, of "''bob''"]
    author_stats_sum[OF run f c o, of "''carol''"] sa sb sc run f c o
  show ?thesis by (simp add: d0_def)
qed

section \<open>Properties of persistence\<close>

lemma orelse_None [simp]: "orelse x None = x"
  by (cases x) simp_all

lemma orelse_assoc: "orelse (orelse x y) z = orelse x (orelse y z)"
  by (cases x) simp_all

lemma get_append: "get k (xs @ ys) = orelse (get k ys) (get k xs)"
  by (induction xs) (simp_all add: orelse_assoc)

lemma valid_utf8_id: "valid_utf8 s \<Longrightarrow> to_valid_utf8 s = s"
  by (induction s rule: to_valid_utf8.induct) (auto simp: Let_def)

lemma dec_enc_string [simp]: "valid_utf8 s \<Longrightarrow> dec_string (Some (enc_string s)) = Some s"
  by (simp add: enc_string_def valid_utf8_id)

lemma get_str_omitempty:
  "get k (str_omitempty k' s) = (if k' = k \<and> s \<noteq> [] then Some (enc_string s) else None)"
  by (simp add: str_omitempty_def)

lemma dec_string_omitempty [simp]:
  "valid_utf8 s \<Longrightarrow> dec_string (if s \<noteq> [] then Some (enc_string s) else None) = Some s"
  by simp

lemma get_ptr_omitempty:
  "get k (ptr_omitempty k' enc p) = (if k' = k then map_option enc p else None)"
  by (cases p) (simp_all add: ptr_omitempty_def)

lemma whole_minutes:
  fixes x :: int
  assumes "x mod 60 = 0"
  shows "sgn x * (abs x div 60) * 60 = x"
proof -
  from assms obtain k where k: "x = 60 * k" by (auto simp: mod_eq_0_iff_dvd)
  have "abs x div 60 = abs k" by (simp add: k abs_mult)
  then show ?thesis by (simp add: k sgn_mult abs_mult_sgn mult.commute mult.left_commute)
qed

lemma wire_time_exact: "exact_time t \<Longrightarrow> wire_time t = t"
  by (simp add: exact_time_def wire_time_def whole_minutes)

lemma dec_enc_time [simp]: "exact_time t \<Longrightarrow> dec_time (Some (enc_time t)) = Some t"
  by (simp add: enc_time_def wire_time_exact) (simp add: exact_time_def)

lemma dec_ptr_int [simp]: "dec_ptr dec_int (map_option JNumber p) = Some p"
  by (cases p) simp_all

lemma dec_ptr_time [simp]: "exact_ptr p \<Longrightarrow> dec_ptr dec_time (map_option enc_time p) = Some p"
proof (cases p)
  case None then show ?thesis by simp
next
  case (Some t)
  assume "exact_ptr p"
  with Some have e: "exact_time t" by (simp add: exact_ptr_def)
  have "dec_time (Some (enc_time t)) = Some t" using e by simp
  then show ?thesis using Some by (simp add: enc_time_def)
qed

lemma User_roundtrip [simp]: "exact_User u \<Longrightarrow> dec_User (Some (marshal_User u)) = Some u"
  by (simp add: marshal_User_def unmarshal_User_members_def exact_User_def)

lemma dec_slice_roundtrip:
  assumes "\<And>x. x \<in> set xs \<Longrightarrow> dec (Some (enc x)) = Some x"
  shows "dec_slice dec (Some (marshal_slice enc xs)) = Some xs"
proof -
  have "those (map (\<lambda>v. dec (Some v)) (map enc xs)) = Some xs"
    using assms by (induction xs) simp_all
  then show ?thesis by (simp add: marshal_slice_def)
qed

lemma Branch_roundtrip [simp]: "exact_Branch b \<Longrightarrow> dec_Branch (Some (marshal_Branch b)) = Some b"
  by (simp add: marshal_Branch_def unmarshal_Branch_members_def exact_Branch_def)

lemma PullRequest_roundtrip:
  "exact_PullRequest pr \<Longrightarrow> unmarshal_PullRequest (marshal_PullRequest pr) = Some pr"
  by (simp add: marshal_PullRequest_def PullRequest_members_def unmarshal_PullRequest_members_def
      get_append get_ptr_omitempty exact_PullRequest_def)

lemma Commit_roundtrip: "exact_Commit c \<Longrightarrow> dec_Commit (Some (marshal_Commit c)) = Some c"
  by (simp add: marshal_Commit_def Commit_members_def unmarshal_Commit_members_def exact_Commit_def)

lemma Comment_roundtrip: "exact_Comment c \<Longrightarrow> dec_Comment (Some (marshal_Comment c)) = Some c"
  by (simp add: marshal_Comment_def Comment_members_def unmarshal_Comment_members_def
      get_append get_ptr_omitempty get_str_omitempty exact_Comment_def)

lemma Review_roundtrip: "exact_Review r \<Longrightarrow> dec_Review (Some (marshal_Review r)) = Some r"
  by (simp add: marshal_Review_def Review_members_def unmarshal_Review_members_def exact_Review_def)

lemma exact_encodable:
  "exact_PullRequest pr \<Longrightarrow> PullRequest_encodable pr"
  "exact_Commit c \<Longrightarrow> time_encodable (ci_Date c)"
  "exact_Comment cm \<Longrightarrow> Comment_encodable cm"
  "exact_Review r \<Longrightarrow> time_encodable (rv_SubmittedAt r)"
  "exact_Metadata md \<Longrightarrow> time_encodable (md_LastUpdated md)"
  by (auto simp: exact_PullRequest_def PullRequest_encodable_def exact_Commit_def exact_Comment_def
        Comment_encodable_def exact_Review_def exact_Metadata_def exact_time_def exact_ptr_def
        ptr_encodable_def split: option.splits)

lemma those_dec_entries:
  "list_all (\<lambda>kv. valid_utf8 (fst kv)) kvs \<Longrightarrow>
     those (map dec_entry (map (\<lambda>kv. (to_valid_utf8 (fst kv), JNumber (snd kv))) kvs)) = Some kvs"
  by (induction kvs) (simp_all add: dec_entry_def valid_utf8_id)

lemma map_of_foldl_update:
  "map_of (foldl (\<lambda>acc kv. AList.update (fst kv) (snd kv) acc) acc kvs) = map_of acc ++ map_of (rev kvs)"
  by (induction kvs arbitrary: acc) (simp_all add: update_conv' map_add_upd_left fun_eq_iff map_add_def split: option.splits)

lemma map_of_rev_distinct: "distinct (map fst kvs) \<Longrightarrow> map_of (rev kvs) = map_of kvs"
  by (subst map_of_inject_set) (simp_all add: rev_map[symmetric])

lemma distinct_keys_sort_key:
  assumes "distinct (map fst kvs)"
  shows "distinct (map fst (sort_key fst kvs))"
proof -
  have "mset (map fst (sort_key fst kvs)) = mset (map fst kvs)" by simp
  then show ?thesis using assms by (metis mset_eq_imp_distinct_iff)
qed

lemma dec_map_roundtrip:
  assumes "list_all (\<lambda>kv. valid_utf8 (fst kv)) al"
  shows "\<exists>al'. dec_map (Some (marshal_map al)) = Some al' \<and> map_of al' = map_of al"
proof -
  define kvs where "kvs = sort_key fst (AList.clearjunk al)"
  define al' where "al' = foldl (\<lambda>acc kv. AList.update (fst kv) (snd kv) acc) [] kvs"
  have d: "distinct (map fst kvs)"
    unfolding kvs_def by (rule distinct_keys_sort_key) (rule distinct_clearjunk)
  have "set (AList.clearjunk al) \<subseteq> set al"
    by (metis distinct_clearjunk map_of_clearjunk map_of_SomeD map_of_is_SomeI subsetI surj_pair)
  then have v: "list_all (\<lambda>kv. valid_utf8 (fst kv)) kvs"
    using assms by (auto simp: kvs_def list_all_iff)
  have "dec_map (Some (marshal_map al)) = Some al'"
    using those_dec_entries[OF v]
    by (simp add: marshal_map_def al'_def kvs_def del: map_map)
  moreover have "map_of al' = map_of kvs"
    by (simp add: al'_def map_of_foldl_update map_of_rev_distinct d)
  moreover have "map_of kvs = map_of (AList.clearjunk al)"
    using d distinct_clearjunk[of al] by (subst map_of_inject_set) (simp_all add: kvs_def)
  ultimately show ?thesis by (auto simp: map_of_clearjunk)
qed

lemma Metadata_roundtrip:
  assumes "exact_Metadata md"
  shows "\<exists>md'. unmarshal_Metadata (marshal_Metadata md) = Some md'
         \<and> md'\<lparr>md_AuthorStats := md_AuthorStats md\<rparr> = md
         \<and> map_of (md_AuthorStats md') = map_of (md_AuthorStats md)"
proof -
  obtain al' where al': "dec_map (Some (marshal_map (md_AuthorStats md))) = Some al'"
    "map_of al' = map_of (md_AuthorStats md)"
    using dec_map_roundtrip assms unfolding exact_Metadata_def by blast
  then show ?thesis
    using assms
    by (simp add: marshal_Metadata_def Metadata_members_def unmarshal_Metadata_members_def
          exact_Metadata_def)
qed

text \<open>
  C7, as amended. Persistence round-trip: for a PullRequest, a Commit list, a Comment
  list, a Review list or the Metadata all of whose strings are valid UTF-8 and all of
  whose timestamps have a year in 0..9999, a zone offset of whole minutes below 24 hours
  and no monotonic clock reading, writing the value with the JSON encoder succeeds and
  reading the file back gives the value written, field for field (for the Metadata, the
  author statistics come back as the same map). In particular a nil \<open>ClosedAt\<close>,
  \<open>MergedAt\<close> or \<open>Line\<close> is left out of the file and reads back as nil, not as a zero
  value.
\<close>

theorem json_roundtrip:
  assumes "exact_PullRequest pr"
    and "list_all exact_Commit commits"
    and "list_all exact_Comment comments"
    and "list_all exact_Review reviews"
    and "exact_Metadata md"
  shows "Option.bind (saveJSON_PullRequest pr) unmarshal_PullRequest = Some pr
   \<and> Option.bind (saveJSON_Commits commits) unmarshal_Commits = Some commits
   \<and> Option.bind (saveJSON_Comments comments) unmarshal_Comments = Some comments
   \<and> Option.bind (saveJSON_Reviews reviews) unmarshal_Reviews = Some reviews
   \<and> (\<exists>md'. Option.bind (saveJSON_Metadata md) unmarshal_Metadata = Some md'
         \<and> md'\<lparr>md_AuthorStats := md_AuthorStats md\<rparr> = md
         \<and> map_of (md_AuthorStats md') = map_of (md_AuthorStats md))"
proof (intro conjI)
  show "Option.bind (saveJSON_PullRequest pr) unmarshal_PullRequest = Some pr"
    using assms(1) by (simp add: saveJSON_PullRequest_def exact_encodable PullRequest_roundtrip)
  have "list_all (\<lambda>c. time_encodable (ci_Date c)) commits"
    using assms(2) by (simp add: list_all_iff exact_encodable)
  then show "Option.bind (saveJSON_Commits commits) unmarshal_Commits = Some commits"
    using assms(2)
    by (simp add: saveJSON_Commits_def unmarshal_Commits_def dec_slice_roundtrip Commit_roundtrip
          list_all_iff)
  have "list_all Comment_encodable comments"
    using assms(3) by (simp add: list_all_iff exact_encodable)
  then show "Option.bind (saveJSON_Comments comments) unmarshal_Comments = Some comments"
    using assms(3)
    by (simp add: saveJSON_Comments_def unmarshal_Comments_def dec_slice_roundtrip Comment_roundtrip
          list_all_iff)
  have "list_all (\<lambda>r. time_encodable (rv_SubmittedAt r)) reviews"
    using assms(4) by (simp add: list_all_iff exact_encodable)
  then show "Option.bind (saveJSON_Reviews reviews) unmarshal_Reviews = Some reviews"
    using assms(4)
    by (simp add: saveJSON_Reviews_def unmarshal_Reviews_def dec_slice_roundtrip Review_roundtrip
          list_all_iff)
  show "\<exists>md'. Option.bind (saveJSON_Metadata md) unmarshal_Metadata = Some md'
         \<and> md'\<lparr>md_AuthorStats := md_AuthorStats md\<rparr> = md
         \<and> map_of (md_AuthorStats md') = map_of (md_AuthorStats md)"
    using Metadata_roundtrip[OF assms(5)] assms(5)
    by (simp add: saveJSON_Metadata_def exact_encodable)
qed

theorem json_roundtrip_witness:
  "exact_PullRequest (sample_pr 42) \<and> pr_ClosedAt (sample_pr 42) = None
   \<and> pr_MergedAt (sample_pr 42) = None
   \<and> list_all exact_Commit [sample_commit]
   \<and> list_all exact_Comment [alice_comment, hunk_comment] \<and> cm_Line hunk_comment = None
   \<and> list_all exact_Review [alice_review]
   \<and> exact_Metadata sample_metadata
   \<and> Option.bind (saveJSON_PullRequest (sample_pr 42)) unmarshal_PullRequest = Some (sample_pr 42)
   \<and> get ''closed_at'' (PullRequest_members (sample_pr 42)) = None
   \<and> get ''merged_at'' (PullRequest_members (sample_pr 42)) = None
   \<and> Option.bind (saveJSON_Commits [sample_commit]) unmarshal_Commits = Some [sample_commit]
   \<and> Option.bind (saveJSON_Comments [alice_comment, hunk_comment]) unmarshal_Comments
       = Some [alice_comment, hunk_comment]
   \<and> get ''line'' (Comment_members hunk_comment) = None
   \<and> Option.bind (saveJSON_Reviews [alice_review]) unmarshal_Reviews = Some [alice_review]
   \<and> Option.bind (saveJSON_Metadata sample_metadata) unmarshal_Metadata = Some sample_metadata"
proof -
  have 1: "exact_PullRequest (sample_pr 42)" by code_simp
  have 2: "list_all exact_Commit [sample_commit]" by code_simp
  have 3: "list_all exact_Comment [alice_comment, hunk_comment]" by code_simp
  have 4: "list_all exact_Review [alice_review]" by code_simp
  have 5: "exact_Metadata sample_metadata" by code_simp
  have n: "pr_ClosedAt (sample_pr 42) = None" "pr_MergedAt (sample_pr 42) = None"
    "cm_Line hunk_comment = None" "md_AuthorStats sample_metadata = []"
    by (simp_all add: sample_pr_def hunk_comment_def sample_comment_def sample_metadata_def)
  have g: "get ''closed_at'' (PullRequest_members (sample_pr 42)) = None"
    "get ''merged_at'' (PullRequest_members (sample_pr 42)) = None"
    "get ''line'' (Comment_members hunk_comment) = None"
    by (simp_all add: PullRequest_members_def Comment_members_def n get_append get_ptr_omitempty
          get_str_omitempty)
  from json_roundtrip[OF 1 2 3 4 5] obtain md' where
    r: "Option.bind (saveJSON_PullRequest (sample_pr 42)) unmarshal_PullRequest = Some (sample_pr 42)"
       "Option.bind (saveJSON_Commits [sample_commit]) unmarshal_Commits = Some [sample_commit]"
       "Option.bind (saveJSON_Comments [alice_comment, hunk_comment]) unmarshal_Comments
          = Some [alice_comment, hunk_comment]"
       "Option.bind (saveJSON_Reviews [alice_review]) unmarshal_Reviews = Some [alice_review]"
    and m: "Option.bind (saveJSON_Metadata sample_metadata) unmarshal_Metadata = Some md'"
       "md'\<lparr>md_AuthorStats := md_AuthorStats sample_metadata\<rparr> = sample_metadata"
       "map_of (md_AuthorStats md') = map_of (md_AuthorStats sample_metadata)"
    by blast
  from m(3) have "md_AuthorStats md' = []" by (cases "md_AuthorStats md'") (auto simp: n)
  with m(2) have "md' = sample_metadata" by (cases md') (auto simp: n)
  with m(1) 1 2 3 4 5 n g r show ?thesis by simp
qed

text \<open>
  C7 as stated holds for every entity value. It fails for a comment whose body is the
  byte \<open>0xFF\<close>, which is read back as the replacement character; for the metadata with
  the timestamp of \<open>time.Now()\<close>, whose monotonic reading is not read back; and for a
  pull request created in the year 10000, for which the encoder returns an error.
\<close>

theorem json_roundtrip_counterexample:
  "Option.bind (saveJSON_Comments [garbled_comment]) unmarshal_Comments
     = Some [garbled_comment\<lparr>cm_Body := replacement_char\<rparr>]
   \<and> cm_Body garbled_comment = [CHR 0xFF]
   \<and> garbled_comment\<lparr>cm_Body := replacement_char\<rparr> \<noteq> garbled_comment
   \<and> Option.bind (saveJSON_Metadata stamped_metadata) unmarshal_Metadata = Some sample_metadata
   \<and> t_monotonic (md_LastUpdated stamped_metadata) = Some 1
   \<and> sample_metadata \<noteq> stamped_metadata
   \<and> saveJSON_PullRequest far_pr = None"
proof -
  have 1: "Option.bind (saveJSON_Comments [garbled_comment]) unmarshal_Comments
     = Some [garbled_comment\<lparr>cm_Body := replacement_char\<rparr>]" by code_simp
  have 2: "cm_Body garbled_comment = [CHR 0xFF]"
    by (simp add: garbled_comment_def sample_comment_def)
  have 3: "garbled_comment\<lparr>cm_Body := replacement_char\<rparr> \<noteq> garbled_comment"
    by (simp add: garbled_comment_def sample_comment_def replacement_char_def)
  have 4: "Option.bind (saveJSON_Metadata stamped_metadata) unmarshal_Metadata = Some sample_metadata"
    by code_simp
  have 5: "t_monotonic (md_LastUpdated stamped_metadata) = Some 1"
    by (simp add: stamped_metadata_def)
  have 6: "sample_metadata \<noteq> stamped_metadata"
    by (simp add: stamped_metadata_def sample_metadata_def sample_time_def)
  have 7: "saveJSON_PullRequest far_pr = None"
    by (simp add: saveJSON_PullRequest_def PullRequest_encodable_def far_pr_def sample_pr_def
          time_encodable_def sample_time_def)
  show ?thesis using 1 2 3 4 5 6 7 by blast
qed

end
